theory Spec2Isabelle
  imports Main "HOL-Library.Word" "HOL-Library.Sublist"
begin

section \<open>Issuance handlers of the certificate authority (pkg/server/api/enroll.go)\<close>

text \<open>
  The handlers of \<^verbatim>\<open>enroll.go\<close> are embedded function by function. What the handlers
  call outside the file (the Go standard library, \<^verbatim>\<open>golang.org/x/crypto/ssh\<close>, the
  storage backend behind \<^verbatim>\<open>c.storage\<close>, the clock and the random source) is not part
  of the file: every such call is a field of the record \<open>env\<close> below, an arbitrary
  function whose result the handlers use exactly as the source does.
\<close>

subsection \<open>Data\<close>

text \<open>A Go \<^verbatim>\<open>error\<close> value; \<open>Error\<close> is its \<^verbatim>\<open>Error()\<close> text.\<close>

datatype error = Err (Error: string)

text \<open>\<^verbatim>\<open>ssh.PublicKey\<close>: the interface is used through \<^verbatim>\<open>Type()\<close> and \<^verbatim>\<open>Marshal()\<close> only.\<close>

record PublicKey =
  key_Type :: string
  key_Marshal :: string

text \<open>
  \<^verbatim>\<open>ssh.Permissions\<close>. A Go map that is \<^verbatim>\<open>nil\<close> reads like an empty one, so both are
  the empty map here.
\<close>

record Permissions =
  CriticalOptions :: "string \<rightharpoonup> string"
  Extensions :: "string \<rightharpoonup> string"

text \<open>\<^verbatim>\<open>ssh.Certificate\<close>; the signature key and the signature are absent before signing.\<close>

record Certificate =
  Nonce :: string
  Key :: PublicKey
  Serial :: "64 word"
  CertType :: "32 word"
  KeyId :: string
  ValidPrincipals :: "string list"
  ValidAfter :: "64 word"
  ValidBefore :: "64 word"
  Permissions :: Permissions
  SignatureKey :: "PublicKey option"
  Signature :: "string option"

text \<open>The constants \<^verbatim>\<open>ssh.UserCert\<close> and \<^verbatim>\<open>ssh.HostCert\<close>.\<close>

definition UserCert :: "32 word" where
  "UserCert = 1"

definition HostCert :: "32 word" where
  "HostCert = 2"

text \<open>An \<^verbatim>\<open>x509.Certificate\<close> of a verified chain, opaque but for its raw bytes.\<close>

datatype x509_Certificate = X509 (Raw: string)

text \<open>\<^verbatim>\<open>tls.ConnectionState\<close>, of which the handlers read \<^verbatim>\<open>VerifiedChains\<close>.\<close>

record ConnectionState =
  VerifiedChains :: "x509_Certificate list list"

text \<open>
  \<^verbatim>\<open>http.Request\<close>. \<open>TLS\<close> is a pointer in Go, \<^verbatim>\<open>nil\<close> on a connection without TLS;
  \<open>Body\<close> is what \<^verbatim>\<open>ioutil.ReadAll(r.Body)\<close> returns; \<open>Vars\<close> is \<^verbatim>\<open>mux.Vars(r)\<close>.
\<close>

record Request =
  Method :: string
  URL :: string
  Header :: "string \<rightharpoonup> string list"
  Body :: "error + string"
  TLS :: "ConnectionState option"
  Vars :: "string \<rightharpoonup> string"

text \<open>
  \<^verbatim>\<open>http.ResponseWriter\<close>: the status line once written, and the bytes of the body.
\<close>

record ResponseWriter =
  status :: "nat option"
  written :: string

text \<open>The configuration (\<^verbatim>\<open>config.Config\<close>), as far as the handlers read it.\<close>

record AuthenticatingProxy =
  Hostname :: string
  UsernameHeader :: string

record SSH =
  UserCertExtensions :: "string list"

record Config =
  StripSuffix :: string
  Aliases :: "string \<rightharpoonup> string list"
  HostCertDuration :: string
  UserCertDuration :: string
  AuthenticatingProxy :: "AuthenticatingProxy option"
  SSH :: SSH

text \<open>One call of \<^verbatim>\<open>storage.RecordIssuance(certType, principal, pubkey)\<close>.\<close>

record Issuance =
  iss_CertType :: "32 word"
  iss_Principal :: string
  iss_Pubkey :: PublicKey

text \<open>The lines the handlers write to the logger.\<close>

datatype log_entry =
  LogHttpError string string nat error
  | LogError string
  | LogEnrollUser string string string

text \<open>
  What the handlers change outside the response: the calls made to the ledger, the
  templates handed to the signer, and the log, each in order.
\<close>

record world =
  ledger :: "Issuance list"
  signer_calls :: "Certificate list"
  log :: "log_entry list"

text \<open>
  The calls that leave the file. \<open>ledger_reply\<close> is what \<^verbatim>\<open>RecordIssuance\<close> answers
  after the calls made so far; \<open>Now\<close> is \<^verbatim>\<open>time.Now()\<close> in nanoseconds since the Unix
  epoch; \<open>ParseDuration\<close> gives nanoseconds; \<open>SignCert\<close> gives the three fields that
  \<^verbatim>\<open>Certificate.SignCert\<close> assigns (nonce, signature key, signature).
\<close>

record env =
  VerifyHostname :: "x509_Certificate \<Rightarrow> string \<Rightarrow> error option"
  ParseAuthorizedKey :: "string \<Rightarrow> error + PublicKey"
  ledger_reply :: "Issuance list \<Rightarrow> Issuance \<Rightarrow> error + 64 word"
  rand_Read :: "nat \<Rightarrow> error + string"
  Now :: int
  ParseDuration :: "string \<Rightarrow> error + int"
  SignCert :: "Certificate \<Rightarrow> error + string \<times> PublicKey \<times> string"
  Marshal :: "Certificate \<Rightarrow> string"
  EncodeToString :: "string \<Rightarrow> string"
  CanonicalMIMEHeaderKey :: "string \<Rightarrow> string"

subsection \<open>Library calls with a fixed meaning\<close>

abbreviation StatusBadRequest :: nat where
  "StatusBadRequest \<equiv> 400"

abbreviation StatusUnauthorized :: nat where
  "StatusUnauthorized \<equiv> 401"

abbreviation StatusForbidden :: nat where
  "StatusForbidden \<equiv> 403"

abbreviation StatusNotFound :: nat where
  "StatusNotFound \<equiv> 404"

abbreviation StatusInternalServerError :: nat where
  "StatusInternalServerError \<equiv> 500"

abbreviation StatusOK :: nat where
  "StatusOK \<equiv> 200"

text \<open>\<^verbatim>\<open>w.WriteHeader\<close>: only the first status counts.\<close>

definition WriteHeader :: "ResponseWriter \<Rightarrow> nat \<Rightarrow> ResponseWriter" where
  "WriteHeader w code = (case status w of None \<Rightarrow> w\<lparr>status := Some code\<rparr> | Some c \<Rightarrow> w)"

text \<open>\<^verbatim>\<open>w.Write\<close>: writes status 200 first when no status was written.\<close>

definition Write :: "ResponseWriter \<Rightarrow> string \<Rightarrow> ResponseWriter" where
  "Write w data = (let w' = WriteHeader w StatusOK in w'\<lparr>written := written w' @ data\<rparr>)"

text \<open>\<^verbatim>\<open>http.Error\<close>: the status, then the message and a newline.\<close>

definition http_Error :: "ResponseWriter \<Rightarrow> string \<Rightarrow> nat \<Rightarrow> ResponseWriter" where
  "http_Error w msg code = Write (WriteHeader w code) (msg @ [CHR 0x0A])"

text \<open>\<^verbatim>\<open>http.Header.Get\<close>: the first value under the canonical form of the key, or \<^verbatim>\<open>""\<close>.\<close>

definition Header_Get :: "env \<Rightarrow> (string \<rightharpoonup> string list) \<Rightarrow> string \<Rightarrow> string" where
  "Header_Get e h key =
     (case h (CanonicalMIMEHeaderKey e key) of
        None \<Rightarrow> []
      | Some [] \<Rightarrow> []
      | Some (v # vs) \<Rightarrow> v)"

text \<open>\<^verbatim>\<open>strings.HasSuffix\<close> and \<^verbatim>\<open>strings.TrimSuffix\<close>, on bytes.\<close>

definition HasSuffix :: "string \<Rightarrow> string \<Rightarrow> bool" where
  "HasSuffix s sfx = (length sfx \<le> length s \<and> drop (length s - length sfx) s = sfx)"

definition TrimSuffix :: "string \<Rightarrow> string \<Rightarrow> string" where
  "TrimSuffix s sfx = (if HasSuffix s sfx then take (length s - length sfx) s else s)"

text \<open>
  \<^verbatim>\<open>time.Time\<close> as nanoseconds since the Unix epoch: \<^verbatim>\<open>Unix()\<close> is the whole second at
  or before the instant, \<^verbatim>\<open>Add\<close> adds a \<^verbatim>\<open>time.Duration\<close> (nanoseconds).
\<close>

definition Unix :: "int \<Rightarrow> int" where
  "Unix t = t div 1000000000"

definition Add :: "int \<Rightarrow> int \<Rightarrow> int" where
  "Add t d = t + d"

text \<open>The verb \<^verbatim>\<open>%d\<close> of \<^verbatim>\<open>fmt\<close> on an unsigned number.\<close>

fun decimal :: "nat \<Rightarrow> string" where
  "decimal n =
     (if n < 10 then [char_of (48 + n)]
      else decimal (n div 10) @ [char_of (48 + n mod 10)])"

declare decimal.simps [simp del]

subsection \<open>The functions of enroll.go\<close>

text \<open>
  \<^verbatim>\<open>logHttpError\<close>: one log line with the method, the URL, the code and the error, then
  \<^verbatim>\<open>http.Error(w, err.Error(), code)\<close>.
\<close>

definition logHttpError ::
  "Request \<Rightarrow> ResponseWriter \<Rightarrow> error \<Rightarrow> nat \<Rightarrow> world \<Rightarrow> ResponseWriter \<times> world" where
  "logHttpError r w err code s =
     (http_Error w (Error err) code,
      s\<lparr>log := log s @ [LogHttpError (Method r) (URL r) code err]\<rparr>)"

text \<open>\<^verbatim>\<open>readPubkey\<close>: read the whole body, then parse it as an authorized key.\<close>

definition readPubkey :: "env \<Rightarrow> Request \<Rightarrow> error + PublicKey" where
  "readPubkey e r =
     (case Body r of
        Inl err \<Rightarrow> Inl err
      | Inr data \<Rightarrow> ParseAuthorizedKey e data)"

text \<open>\<^verbatim>\<open>encodeCert\<close>: never returns an error.\<close>

definition encodeCert :: "env \<Rightarrow> Certificate \<Rightarrow> error + string" where
  "encodeCert e certificate =
     (let certString = EncodeToString e (Marshal e certificate)
      in Inr (key_Type (Key certificate) @ ''-cert-v01@openssh.com '' @ certString @ [CHR 0x0A]))"

text \<open>
  \<^verbatim>\<open>c.storage.RecordIssuance\<close>: the call is recorded in the ledger whatever it answers.
\<close>

definition RecordIssuance ::
  "env \<Rightarrow> 32 word \<Rightarrow> string \<Rightarrow> PublicKey \<Rightarrow> world \<Rightarrow> (error + 64 word) \<times> world" where
  "RecordIssuance e certType princ pubkey s =
     (let call = \<lparr>iss_CertType = certType, iss_Principal = princ, iss_Pubkey = pubkey\<rparr>
      in (ledger_reply e (ledger s) call, s\<lparr>ledger := ledger s @ [call]\<rparr>))"

text \<open>
  \<^verbatim>\<open>clientAuthenticated\<close> and \<^verbatim>\<open>clientHostnameMatches\<close>. The result \<open>None\<close> is a Go
  panic: \<^verbatim>\<open>r.TLS\<close> is \<^verbatim>\<open>nil\<close>, or \<^verbatim>\<open>VerifiedChains[0]\<close> has no element \<^verbatim>\<open>[0]\<close>.
\<close>

definition clientAuthenticated :: "Request \<Rightarrow> bool option" where
  "clientAuthenticated r =
     (case TLS r of
        None \<Rightarrow> None
      | Some conn \<Rightarrow> Some (0 < length (VerifiedChains conn)))"

definition clientHostnameMatches :: "env \<Rightarrow> string \<Rightarrow> Request \<Rightarrow> bool option" where
  "clientHostnameMatches e hostname r =
     (case TLS r of
        None \<Rightarrow> None
      | Some conn \<Rightarrow>
          if length (VerifiedChains conn) = 0 then Some False
          else (case VerifiedChains conn ! 0 of
                  [] \<Rightarrow> None
                | cert # rest \<Rightarrow> Some (VerifyHostname e cert hostname = None)))"

text \<open>\<^verbatim>\<open>getDurationForCertType\<close>: the duration string of the certificate type, parsed.\<close>

definition getDurationForCertType :: "env \<Rightarrow> Config \<Rightarrow> 32 word \<Rightarrow> error + int" where
  "getDurationForCertType e cfg certType =
     (if certType = HostCert then ParseDuration e (HostCertDuration cfg)
      else if certType = UserCert then ParseDuration e (UserCertDuration cfg)
      else Inl (Err (''unknown cert type '' @ decimal (unat certType))))"

text \<open>
  \<^verbatim>\<open>getPermissionsForCertType\<close>: the configured extensions, each with the empty value,
  on a user certificate; \<open>cfg\<close> is a pointer in Go, \<open>None\<close> when \<^verbatim>\<open>nil\<close>.
\<close>

definition getPermissionsForCertType :: "SSH option \<Rightarrow> 32 word \<Rightarrow> Permissions" where
  "getPermissionsForCertType cfg certType =
     (let perms = \<lparr>CriticalOptions = Map.empty, Extensions = Map.empty\<rparr>
      in if certType = UserCert then
           (case cfg of
              None \<Rightarrow> perms
            | Some c \<Rightarrow>
                if 0 < length (UserCertExtensions c)
                then perms\<lparr>Extensions := fold (\<lambda>ext m. m(ext \<mapsto> [])) (UserCertExtensions c) Map.empty\<rparr>
                else perms)
         else perms)"

text \<open>
  \<^verbatim>\<open>sign\<close>: nonce, validity window, template, signature. The template is handed to the
  signer once the nonce and the duration are there; \<^verbatim>\<open>SignCert\<close> assigns the nonce, the
  signature key and the signature of the template and leaves its other fields.
\<close>

definition sign ::
  "env \<Rightarrow> Config \<Rightarrow> string \<Rightarrow> string list \<Rightarrow> 64 word \<Rightarrow> 32 word \<Rightarrow> PublicKey \<Rightarrow> world
     \<Rightarrow> (error + Certificate) \<times> world" where
  "sign e conf keyId principals serial certType pubkey s =
     (case rand_Read e 32 of
        Inl err \<Rightarrow> (Inl err, s)
      | Inr nonce \<Rightarrow>
          let startTime = Now e
          in (case getDurationForCertType e conf certType of
                Inl err \<Rightarrow> (Inl err, s)
              | Inr duration \<Rightarrow>
                  let endTime = Add startTime duration;
                      template =
                        \<lparr>Nonce = nonce, Key = pubkey, Serial = serial, CertType = certType,
                         KeyId = keyId, ValidPrincipals = principals,
                         ValidAfter = word_of_int (Unix startTime),
                         ValidBefore = word_of_int (Unix endTime),
                         Permissions = getPermissionsForCertType (Some (SSH conf)) certType,
                         SignatureKey = None, Signature = None\<rparr>;
                      s' = s\<lparr>signer_calls := signer_calls s @ [template]\<rparr>
                  in (case SignCert e template of
                        Inl err \<Rightarrow> (Inl err, s')
                      | Inr (n, k, sg) \<Rightarrow>
                          (Inr (template\<lparr>Nonce := n, SignatureKey := Some k,
                                          Signature := Some sg\<rparr>), s'))))"

text \<open>\<^verbatim>\<open>signHost\<close>: the principals of a host certificate, then \<^verbatim>\<open>sign\<close>.\<close>

definition signHost ::
  "env \<Rightarrow> Config \<Rightarrow> string \<Rightarrow> 64 word \<Rightarrow> PublicKey \<Rightarrow> world \<Rightarrow> (error + Certificate) \<times> world" where
  "signHost e conf hostname serial pubkey s =
     (let principals = [hostname];
          principals =
            (if StripSuffix conf \<noteq> [] \<and> HasSuffix hostname (StripSuffix conf)
             then principals @ [TrimSuffix hostname (StripSuffix conf)]
             else principals);
          principals =
            (case Aliases conf hostname of
               Some aliases \<Rightarrow> principals @ aliases
             | None \<Rightarrow> principals)
      in sign e conf hostname principals serial HostCert pubkey s)"

text \<open>\<^verbatim>\<open>EnrollHost\<close>: read the key, record the issuance, sign, encode.\<close>

definition EnrollHost ::
  "env \<Rightarrow> Config \<Rightarrow> string \<Rightarrow> Request \<Rightarrow> world \<Rightarrow> (error + string) \<times> world" where
  "EnrollHost e conf hostname r s =
     (case readPubkey e r of
        Inl err \<Rightarrow> (Inl err, s)
      | Inr pubkey \<Rightarrow>
          (case RecordIssuance e HostCert hostname pubkey s of
             (Inl err, s1) \<Rightarrow> (Inl err, s1)
           | (Inr id', s1) \<Rightarrow>
               (case signHost e conf hostname id' pubkey s1 of
                  (Inl err, s2) \<Rightarrow> (Inl err, s2)
                | (Inr signedCert, s2) \<Rightarrow> (encodeCert e signedCert, s2))))"

text \<open>
  \<^verbatim>\<open>Enroll\<close>, the handler of a host enrollment. \<open>None\<close> is a panic of the handler; a key
  missing from \<^verbatim>\<open>mux.Vars\<close> reads as the empty string.
\<close>

definition Enroll ::
  "env \<Rightarrow> Config \<Rightarrow> ResponseWriter \<Rightarrow> Request \<Rightarrow> world \<Rightarrow> (ResponseWriter \<times> world) option" where
  "Enroll e conf w r s =
     (let hostname = (case Vars r ''hostname'' of None \<Rightarrow> [] | Some h \<Rightarrow> h)
      in case clientAuthenticated r of
           None \<Rightarrow> None
         | Some authenticated \<Rightarrow>
             if \<not> authenticated
             then Some (http_Error w ''no client certificate provided'' StatusUnauthorized, s)
             else (case clientHostnameMatches e hostname r of
                     None \<Rightarrow> None
                   | Some matches \<Rightarrow>
                       if \<not> matches
                       then Some (http_Error w ''hostname does not match certificate''
                                    StatusForbidden, s)
                       else (case EnrollHost e conf hostname r s of
                               (Inl err, s1) \<Rightarrow>
                                 Some (http_Error w (Error err) StatusInternalServerError,
                                       s1\<lparr>log := log s1 @ [LogError ''internal error'']\<rparr>)
                             | (Inr cert, s1) \<Rightarrow> Some (Write w cert, s1))))"

text \<open>
  \<^verbatim>\<open>proxyAuthenticated\<close>: the user name and whether the request came from the proxy, with
  the response and the log it wrote. The second test of the conjunction runs only when
  the first holds, as \<^verbatim>\<open>&&\<close> does.
\<close>

definition proxyAuthenticated ::
  "env \<Rightarrow> AuthenticatingProxy option \<Rightarrow> ResponseWriter \<Rightarrow> Request \<Rightarrow> world
     \<Rightarrow> (string \<times> bool \<times> ResponseWriter \<times> world) option" where
  "proxyAuthenticated e ap w r s =
     (case ap of
        None \<Rightarrow>
          (case logHttpError r w (Err ''client certificates are unavailable'') StatusNotFound s of
             (w1, s1) \<Rightarrow> Some ([], False, w1, s1))
      | Some p \<Rightarrow>
          (case (case clientAuthenticated r of
                   None \<Rightarrow> None
                 | Some False \<Rightarrow> Some False
                 | Some True \<Rightarrow> clientHostnameMatches e (Hostname p) r) of
             None \<Rightarrow> None
           | Some from_proxy \<Rightarrow>
               if \<not> from_proxy
               then (case logHttpError r w (Err ''request didn't come from proxy'')
                            StatusUnauthorized s of
                       (w1, s1) \<Rightarrow> Some ([], False, w1, s1))
               else (let user = Header_Get e (Header r) (UsernameHeader p)
                     in if user = []
                        then (case logHttpError r w (Err ''no username supplied'')
                                     StatusUnauthorized s of
                                (w1, s1) \<Rightarrow> Some ([], False, w1, s1))
                        else Some (user, True, w, s))))"

text \<open>\<^verbatim>\<open>EnrollUser\<close>, the handler of a user enrollment. \<open>None\<close> is a panic of the handler.\<close>

definition EnrollUser ::
  "env \<Rightarrow> Config \<Rightarrow> ResponseWriter \<Rightarrow> Request \<Rightarrow> world \<Rightarrow> (ResponseWriter \<times> world) option" where
  "EnrollUser e conf w r s =
     (case proxyAuthenticated e (AuthenticatingProxy conf) w r s of
        None \<Rightarrow> None
      | Some (user, ok, w1, s1) \<Rightarrow>
          if \<not> ok then Some (w1, s1)
          else (case readPubkey e r of
                  Inl err \<Rightarrow> Some (logHttpError r w1 err StatusBadRequest s1)
                | Inr pk \<Rightarrow>
                    (case RecordIssuance e UserCert user pk s1 of
                       (Inl err, s2) \<Rightarrow>
                         Some (logHttpError r w1 err StatusInternalServerError s2)
                     | (Inr id', s2) \<Rightarrow>
                         (case sign e conf user [user] id' UserCert pk s2 of
                            (Inl err, s3) \<Rightarrow>
                              Some (logHttpError r w1 err StatusInternalServerError s3)
                          | (Inr certificate, s3) \<Rightarrow>
                              (case encodeCert e certificate of
                                 Inl err \<Rightarrow>
                                   Some (logHttpError r w1 err StatusInternalServerError s3)
                               | Inr certString \<Rightarrow>
                                   Some (Write w1 certString,
                                         s3\<lparr>log := log s3 @
                                            [LogEnrollUser (key_Type pk)
                                               (EncodeToString e (key_Marshal pk)) user]\<rparr>))))))"

subsection \<open>An example deployment\<close>

text \<open>
  The configuration is the repository's example configuration file. The environment is
  one possible behaviour of the outside world, small enough to compute with: a chain
  certificate is valid for the name in its raw bytes, one key text parses, the ledger
  answers with the number of the call, and a certificate marshals to its key id.
\<close>

definition example_config :: Config where
  "example_config =
     \<lparr>StripSuffix = ''.example.com'',
      Aliases = [''host.example.com'' \<mapsto> [''alias1.example.com'', ''alias2.example.com'']],
      HostCertDuration = ''168h'',
      UserCertDuration = ''24h'',
      AuthenticatingProxy =
        Some \<lparr>Hostname = ''proxy.example.com'', UsernameHeader = ''X-Forwarded-User''\<rparr>,
      SSH = \<lparr>UserCertExtensions =
               [''permit-X11-forwarding'', ''permit-agent-forwarding'',
                ''permit-port-forwarding'', ''permit-pty'', ''permit-user-rc'']\<rparr>\<rparr>"

definition example_key :: PublicKey where
  "example_key = \<lparr>key_Type = ''ssh-ed25519'', key_Marshal = ''KEY''\<rparr>"

definition example_env :: env where
  "example_env =
     \<lparr>VerifyHostname =
        (\<lambda>cert h. if Raw cert = h then None
                   else Some (Err ''x509: certificate is not valid for this name'')),
      ParseAuthorizedKey =
        (\<lambda>data. if data = ''ssh-ed25519 KEY'' then Inr example_key
                 else Inl (Err ''ssh: no key found'')),
      ledger_reply = (\<lambda>calls call. Inr (word_of_nat (length calls) + 1)),
      rand_Read = (\<lambda>n. Inr (replicate n (CHR ''r''))),
      Now = 1700000000123456789,
      ParseDuration =
        (\<lambda>d. if d = ''168h'' then Inr 604800000000000
              else if d = ''24h'' then Inr 86400000000000
              else if d = ''1500ms'' then Inr 1500000000
              else Inl (Err ''time: invalid duration'')),
      SignCert = (\<lambda>t. Inr (Nonce t, \<lparr>key_Type = ''ssh-rsa'', key_Marshal = ''CA''\<rparr>, ''SIG'')),
      Marshal = (\<lambda>c. KeyId c),
      EncodeToString = (\<lambda>b. b),
      CanonicalMIMEHeaderKey = (\<lambda>k. k)\<rparr>"

definition example_world :: world where
  "example_world = \<lparr>ledger = [], signer_calls = [], log = []\<rparr>"

definition example_response :: ResponseWriter where
  "example_response = \<lparr>status = None, written = []\<rparr>"

definition example_host_request :: Request where
  "example_host_request =
     \<lparr>Method = ''POST'', URL = ''/enroll/host.example.com'', Header = Map.empty,
      Body = Inr ''ssh-ed25519 KEY'',
      TLS = Some \<lparr>VerifiedChains = [ [X509 ''host.example.com''] ]\<rparr>,
      Vars = [''hostname'' \<mapsto> ''host.example.com'']\<rparr>"

definition example_user_request :: Request where
  "example_user_request =
     \<lparr>Method = ''POST'', URL = ''/enroll_user'',
      Header = [''X-Forwarded-User'' \<mapsto> [''alice'']],
      Body = Inr ''ssh-ed25519 KEY'',
      TLS = Some \<lparr>VerifiedChains = [ [X509 ''proxy.example.com''] ]\<rparr>,
      Vars = Map.empty\<rparr>"

text \<open>A host certificate duration that is not a whole number of seconds.\<close>

definition subsecond_config :: Config where
  "subsecond_config = example_config\<lparr>HostCertDuration := ''1500ms''\<rparr>"

definition subsecond_run :: "(error + Certificate) \<times> world" where
  "subsecond_run =
     sign example_env subsecond_config ''host.example.com'' [''host.example.com''] 1 HostCert
       example_key example_world"

text \<open>Signing a host certificate under the example configuration.\<close>

definition example_sign_run :: "(error + Certificate) \<times> world" where
  "example_sign_run =
     sign example_env example_config ''host.example.com'' [''host.example.com''] 1 HostCert
       example_key example_world"

text \<open>The two handlers' pipelines on the example requests.\<close>

definition example_user_run :: "(ResponseWriter \<times> world) option" where
  "example_user_run =
     EnrollUser example_env example_config example_response example_user_request example_world"

definition example_host_run :: "(error + string) \<times> world" where
  "example_host_run =
     EnrollHost example_env example_config ''host.example.com'' example_host_request example_world"

text \<open>A user whose name is a configured host name.\<close>

definition hostlike_user_run :: "(ResponseWriter \<times> world) option" where
  "hostlike_user_run =
     EnrollUser example_env example_config example_response
       (example_user_request\<lparr>Header := [''X-Forwarded-User'' \<mapsto> [''host.example.com'']]\<rparr>)
       example_world"

text \<open>A ledger that refuses every write.\<close>

definition failing_ledger_env :: env where
  "failing_ledger_env = example_env\<lparr>ledger_reply := (\<lambda>calls call. Inl (Err ''disk full''))\<rparr>"

definition failing_ledger_run :: "(ResponseWriter \<times> world) option" where
  "failing_ledger_run =
     EnrollUser failing_ledger_env example_config example_response example_user_request
       example_world"

section \<open>Properties\<close>

subsection \<open>Auxiliary facts\<close>

lemma pair_Inr_projr: "\<not> isl (fst p) \<Longrightarrow> p = (Inr (projr (fst p)), snd p)"
  by (cases p; cases "fst p") auto

lemma WriteHeader_fresh: "status w = None \<Longrightarrow> WriteHeader w code = w\<lparr>status := Some code\<rparr>"
  by (simp add: WriteHeader_def)

lemma http_Error_fresh:
  "status w = None \<Longrightarrow> http_Error w msg code = \<lparr>status = Some code, written = written w @ msg @ [CHR 0x0A]\<rparr>"
  by (simp add: http_Error_def Write_def WriteHeader_def)

lemma Write_fresh:
  "status w = None \<Longrightarrow> Write w d = \<lparr>status = Some 200, written = written w @ d\<rparr>"
  by (simp add: Write_def WriteHeader_def)

lemma logHttpError_fresh:
  "status w = None \<Longrightarrow> logHttpError r w err code s =
     (\<lparr>status = Some code, written = written w @ Error err @ [CHR 0x0A]\<rparr>,
      s\<lparr>log := log s @ [LogHttpError (Method r) (URL r) code err]\<rparr>)"
  by (simp add: logHttpError_def http_Error_fresh)

lemma sign_Inr:
  assumes "sign e conf keyId principals serial certType pubkey s = (Inr cert, s')"
  shows "\<exists>nonce duration n k sg template.
           rand_Read e 32 = Inr nonce \<and>
           getDurationForCertType e conf certType = Inr duration \<and>
           template = \<lparr>Nonce = nonce, Key = pubkey, Serial = serial, CertType = certType,
                         KeyId = keyId, ValidPrincipals = principals,
                         ValidAfter = word_of_int (Unix (Now e)),
                         ValidBefore = word_of_int (Unix (Add (Now e) duration)),
                         Permissions = getPermissionsForCertType (Some (SSH conf)) certType,
                         SignatureKey = None, Signature = None\<rparr> \<and>
           SignCert e template = Inr (n, k, sg) \<and>
           cert = template\<lparr>Nonce := n, SignatureKey := Some k, Signature := Some sg\<rparr> \<and>
           s' = s\<lparr>signer_calls := signer_calls s @ [template]\<rparr>"
  using assms
  by (auto simp: sign_def Let_def split: sum.splits prod.splits)

lemma sign_Inl:
  assumes "sign e conf keyId principals serial certType pubkey s = (Inl err, s')"
  shows "ledger s' = ledger s"
  using assms
  by (auto simp: sign_def Let_def split: sum.splits prod.splits)

lemma fold_upd_dom: "dom (fold (\<lambda>ext m. m(ext \<mapsto> v)) xs m0) = dom m0 \<union> set xs"
  by (induction xs arbitrary: m0) auto

lemma fold_upd_val: "fold (\<lambda>ext m. m(ext \<mapsto> v)) xs m0 x = (if x \<in> set xs then Some v else m0 x)"
  by (induction xs arbitrary: m0) auto

lemma HasSuffix_iff_suffix: "HasSuffix s sfx \<longleftrightarrow> suffix sfx s"
proof
  assume "HasSuffix s sfx"
  then have "s = take (length s - length sfx) s @ sfx"
    by (metis HasSuffix_def append_take_drop_id)
  then show "suffix sfx s" by (metis suffixI)
next
  assume "suffix sfx s"
  then obtain stem where "s = stem @ sfx" by (auto simp: suffix_def)
  then show "HasSuffix s sfx" by (simp add: HasSuffix_def)
qed

lemma TrimSuffix_append: "TrimSuffix (stem @ sfx) sfx = stem"
  by (simp add: TrimSuffix_def HasSuffix_def)

lemma sign_principals:
  "sign e conf keyId principals serial certType pubkey s = (Inr cert, s') \<Longrightarrow>
     ValidPrincipals cert = principals"
  by (drule sign_Inr) auto

lemma signHost_stem:
  "StripSuffix conf \<noteq> [] \<Longrightarrow> h = stem @ StripSuffix conf \<Longrightarrow>
   signHost e conf h serial pubkey s =
     sign e conf h ([h, stem] @ (case Aliases conf h of None \<Rightarrow> [] | Some as \<Rightarrow> as)) serial HostCert pubkey s"
  by (simp add: signHost_def HasSuffix_def TrimSuffix_def split: option.splits)

lemma signHost_plain:
  "StripSuffix conf = [] \<or> \<not> suffix (StripSuffix conf) h \<Longrightarrow>
   signHost e conf h serial pubkey s =
     sign e conf h ([h] @ (case Aliases conf h of None \<Rightarrow> [] | Some as \<Rightarrow> as)) serial HostCert pubkey s"
  by (auto simp add: signHost_def HasSuffix_iff_suffix split: option.splits)

lemma example_sign_ok:
  "t = HostCert \<or> t = UserCert \<Longrightarrow>
   \<not> isl (fst (sign example_env example_config k ps n t example_key example_world))"
  by (auto simp add: sign_def getDurationForCertType_def example_config_def example_key_def example_env_def example_world_def Let_def HostCert_def UserCert_def)

lemma div_whole:
  assumes "0 < (k::int)" "d mod k = 0"
  shows "(n + d) div k - n div k = d div k"
proof -
  from assms(2) have "d = (d div k) * k" by auto
  then have "(n + d) div k = (n + (d div k) * k) div k" by simp
  also have "\<dots> = n div k + d div k" using assms(1) by simp
  finally show ?thesis by simp
qed

lemma div_floor_ceil:
  assumes k: "0 < (k::int)"
  shows "d div k \<le> (n + d) div k - n div k \<and> (n + d) div k - n div k \<le> d div k + 1"
proof -
  let ?x = "n mod k + d mod k"
  have e: "(n + d) div k = n div k + d div k + ?x div k"
    by (rule div_add1_eq)
  have "0 \<le> ?x" using k by (simp add: add_nonneg_nonneg)
  then have lo: "0 \<le> ?x div k" using k by (simp add: pos_imp_zdiv_nonneg_iff)
  have "n mod k < k" "d mod k < k" using k by simp_all
  then have "?x \<le> k + (k - 1)" by simp
  then have "?x div k \<le> (k + (k - 1)) div k" using k by (rule zdiv_mono1)
  also have "(k + (k - 1)) div k = (k - 1) div k + 1"
    by (rule div_add_self1) (use k in simp)
  also have "(k - 1) div k = 0" using k by (simp add: div_pos_pos_trivial)
  finally have "?x div k \<le> 1" by simp
  with lo e show ?thesis by simp
qed

lemma sign_window:
  assumes "sign e conf keyId principals serial certType pubkey s = (Inr cert, s')"
    and "getDurationForCertType e conf certType = Inr d"
  shows "ValidAfter cert = word_of_int (Now e div 1000000000)"
    and "ValidBefore cert = word_of_int ((Now e + d) div 1000000000)"
  using sign_Inr [OF assms(1)] assms(2) by (auto simp: Unix_def Add_def)

lemma uint_u64: "0 \<le> x \<Longrightarrow> x < 2 ^ 64 \<Longrightarrow> uint (word_of_int x :: 64 word) = x"
  by (simp add: uint_word_of_int take_bit_eq_mod)

lemma proxyAuthenticated_ok:
  assumes "proxyAuthenticated e ap w r s = Some (user, True, w1, s1)"
  shows "\<exists>p. ap = Some p \<and> clientAuthenticated r = Some True \<and>
             clientHostnameMatches e (Hostname p) r = Some True \<and>
             user = Header_Get e (Header r) (UsernameHeader p) \<and> user \<noteq> [] \<and>
             w1 = w \<and> s1 = s"
  using assms
  by (auto simp: proxyAuthenticated_def logHttpError_def Let_def
           split: option.splits bool.splits if_splits)

lemma proxyAuthenticated_rejected:
  assumes "status w = None" "proxyAuthenticated e ap w r s = Some (user, False, w1, s1)"
  shows "status w1 \<noteq> Some 200 \<and> ledger s1 = ledger s \<and> signer_calls s1 = signer_calls s"
  using assms
  by (auto simp: proxyAuthenticated_def logHttpError_fresh Let_def
           split: option.splits bool.splits if_splits)

lemma EnrollUser_success:
  assumes "status w = None" "EnrollUser e conf w r s = Some (w', s')" "status w' = Some 200"
  shows "\<exists>user pk serial s1 cert s2 certString.
           proxyAuthenticated e (AuthenticatingProxy conf) w r s = Some (user, True, w, s) \<and>
           readPubkey e r = Inr pk \<and>
           RecordIssuance e UserCert user pk s = (Inr serial, s1) \<and>
           sign e conf user [user] serial UserCert pk s1 = (Inr cert, s2) \<and>
           encodeCert e cert = Inr certString \<and>
           w' = Write w certString \<and>
           s' = s2\<lparr>log := log s2 @ [LogEnrollUser (key_Type pk) (EncodeToString e (key_Marshal pk)) user]\<rparr>"
proof -
  from assms(2) obtain user ok w1 s1 where
    p: "proxyAuthenticated e (AuthenticatingProxy conf) w r s = Some (user, ok, w1, s1)"
    by (auto simp: EnrollUser_def split: option.splits)
  have ok: "ok"
  proof (rule ccontr)
    assume "\<not> ok"
    with p assms(2) have "w' = w1" and "proxyAuthenticated e (AuthenticatingProxy conf) w r s = Some (user, False, w1, s1)"
      by (auto simp: EnrollUser_def)
    with proxyAuthenticated_rejected [OF assms(1)] assms(3) show False by blast
  qed
  with p have "proxyAuthenticated e (AuthenticatingProxy conf) w r s = Some (user, True, w1, s1)"
    by simp
  from proxyAuthenticated_ok [OF this] have w1: "w1 = w" "s1 = s" by auto
  from p ok w1 assms show ?thesis
    by (auto simp: EnrollUser_def logHttpError_fresh split: sum.splits prod.splits)
qed

lemma EnrollHost_success:
  assumes "EnrollHost e conf hostname r s = (Inr certString, s')"
  shows "\<exists>pubkey serial s1 cert.
           readPubkey e r = Inr pubkey \<and>
           RecordIssuance e HostCert hostname pubkey s = (Inr serial, s1) \<and>
           signHost e conf hostname serial pubkey s1 = (Inr cert, s') \<and>
           encodeCert e cert = Inr certString"
  using assms
  by (auto simp: EnrollHost_def split: sum.splits prod.splits)

lemma sign_serial:
  assumes "sign e conf keyId principals serial certType pubkey s = (Inr cert, s')"
  shows "Serial cert = serial \<and> ledger s' = ledger s \<and> log s' = log s \<and>
         (\<exists>template. signer_calls s' = signer_calls s @ [template] \<and> Serial template = serial
             \<and> ValidPrincipals template = principals)"
  using sign_Inr [OF assms] by auto

lemma signHost_serial:
  assumes "signHost e conf hostname serial pubkey s = (Inr cert, s')"
  shows "Serial cert = serial \<and> ledger s' = ledger s \<and> log s' = log s \<and>
         (\<exists>template. signer_calls s' = signer_calls s @ [template] \<and> Serial template = serial)"
proof -
  from assms obtain ps where "sign e conf hostname ps serial HostCert pubkey s = (Inr cert, s')"
    by (auto simp: signHost_def Let_def)
  from sign_serial [OF this] show ?thesis by auto
qed

lemma RecordIssuance_eq:
  "RecordIssuance e t p k s = (res, s1) \<longleftrightarrow>
     res = ledger_reply e (ledger s) \<lparr>iss_CertType = t, iss_Principal = p, iss_Pubkey = k\<rparr> \<and>
     s1 = s\<lparr>ledger := ledger s @ [\<lparr>iss_CertType = t, iss_Principal = p, iss_Pubkey = k\<rparr>]\<rparr>"
  by (auto simp: RecordIssuance_def Let_def)

lemma clientAuthenticated_eq:
  "TLS r = Some conn \<Longrightarrow> clientAuthenticated r = Some (VerifiedChains conn \<noteq> [])"
  by (simp add: clientAuthenticated_def)

lemma clientHostnameMatches_empty:
  "TLS r = Some conn \<Longrightarrow> VerifiedChains conn = [] \<Longrightarrow>
     clientHostnameMatches e hostname r = Some False"
  by (simp add: clientHostnameMatches_def)

lemma clientHostnameMatches_leaf:
  "TLS r = Some conn \<Longrightarrow> VerifiedChains conn = (leaf # rest) # others \<Longrightarrow>
     clientHostnameMatches e hostname r = Some (VerifyHostname e leaf hostname = None)"
  by (simp add: clientHostnameMatches_def)

lemma clientHostnameMatches_True:
  assumes "clientHostnameMatches e hostname r = Some True"
  shows "\<exists>conn leaf rest others. TLS r = Some conn \<and> VerifiedChains conn = (leaf # rest) # others \<and>
           VerifyHostname e leaf hostname = None"
proof -
  from assms obtain conn where c: "TLS r = Some conn"
    by (auto simp: clientHostnameMatches_def split: option.splits)
  with assms obtain chain others where v: "VerifiedChains conn = chain # others"
    by (cases "VerifiedChains conn") (auto simp: clientHostnameMatches_def)
  with assms c obtain leaf rest where l: "chain = leaf # rest"
    by (cases chain) (auto simp: clientHostnameMatches_def)
  with assms c v have "VerifyHostname e leaf hostname = None"
    by (simp add: clientHostnameMatches_def)
  with c v l show ?thesis by blast
qed

lemma map_option_fst_the: "map_option fst x = Some a \<Longrightarrow> fst (the x) = a"
  by (cases x) auto

lemma sign_fails_iff:
  "fst (sign e conf keyId ps serial t pk s) = Inl err \<longleftrightarrow>
     (rand_Read e 32 = Inl err \<or>
      (\<exists>nonce. rand_Read e 32 = Inr nonce \<and>
         (getDurationForCertType e conf t = Inl err \<or>
          (\<exists>d. getDurationForCertType e conf t = Inr d \<and>
             SignCert e
               \<lparr>Nonce = nonce, Key = pk, Serial = serial, CertType = t, KeyId = keyId,
                ValidPrincipals = ps,
                ValidAfter = word_of_int (Unix (Now e)),
                ValidBefore = word_of_int (Unix (Add (Now e) d)),
                Permissions = getPermissionsForCertType (Some (SSH conf)) t,
                SignatureKey = None, Signature = None\<rparr> = Inl err))))"
  by (auto simp: sign_def Let_def split: sum.splits prod.splits)

lemma example_proxy_ok:
  "proxyAuthenticated example_env (AuthenticatingProxy example_config) example_response
     example_user_request example_world =
     Some (''alice'', True, example_response, example_world)"
  by (simp add: proxyAuthenticated_def clientAuthenticated_def clientHostnameMatches_def
        Header_Get_def example_env_def example_config_def example_user_request_def)

lemma example_user_run_ledger:
  "example_user_run \<noteq> None \<and>
   status (fst (the example_user_run)) = Some 200 \<and>
   ledger (snd (the example_user_run)) =
     [\<lparr>iss_CertType = UserCert, iss_Principal = ''alice'', iss_Pubkey = example_key\<rparr>]"
  by (simp add: example_user_run_def EnrollUser_def proxyAuthenticated_def
        clientAuthenticated_def clientHostnameMatches_def Header_Get_def readPubkey_def
        RecordIssuance_def sign_def getDurationForCertType_def encodeCert_def Write_fresh Let_def
        UserCert_def HostCert_def
        example_env_def example_config_def example_user_request_def example_world_def
        example_response_def)

lemma option_pair_the: "x \<noteq> None \<Longrightarrow> x = Some (fst (the x), snd (the x))"
  by (cases x) auto

lemma hostlike_user_run_ok:
  "hostlike_user_run \<noteq> None \<and> status (fst (the hostlike_user_run)) = Some 200"
  by (simp add: hostlike_user_run_def EnrollUser_def proxyAuthenticated_def
        clientAuthenticated_def clientHostnameMatches_def Header_Get_def readPubkey_def
        RecordIssuance_def sign_def getDurationForCertType_def encodeCert_def Write_fresh Let_def
        UserCert_def HostCert_def
        example_env_def example_config_def example_user_request_def example_world_def
        example_response_def)

lemma sign_fields:
  assumes "sign e conf keyId principals serial certType pubkey s = (Inr cert, s')"
  shows "KeyId cert = keyId \<and> CertType cert = certType \<and> Key cert = pubkey"
  using sign_Inr [OF assms] by auto

lemma example_host_run_ok: "\<not> isl (fst example_host_run)"
  by (simp add: example_host_run_def EnrollHost_def readPubkey_def RecordIssuance_def
        signHost_def sign_def getDurationForCertType_def encodeCert_def Let_def
        HostCert_def UserCert_def
        example_env_def example_config_def example_host_request_def example_world_def)

subsection \<open>The serial of an issued certificate\<close>

text \<open>
  Claim C1. Every successful issuance, in the host flow (\<^verbatim>\<open>EnrollHost\<close> returns the
  encoded certificate) and in the user flow (\<^verbatim>\<open>EnrollUser\<close> answers with status 200),
  makes one call of \<^verbatim>\<open>RecordIssuance\<close> for the request, and the serial of the certificate
  that is signed and encoded is the serial that this call returned. The signer is handed
  one template in the request, and it carries that serial.
\<close>

theorem certificate_serial_from_ledger:
  "(EnrollHost e conf hostname r s = (Inr certString, s') \<longrightarrow>
      (\<exists>pubkey serial s1 cert template.
         readPubkey e r = Inr pubkey \<and>
         RecordIssuance e HostCert hostname pubkey s = (Inr serial, s1) \<and>
         signHost e conf hostname serial pubkey s1 = (Inr cert, s') \<and>
         encodeCert e cert = Inr certString \<and>
         Serial cert = serial \<and>
         ledger s' = ledger s @
           [\<lparr>iss_CertType = HostCert, iss_Principal = hostname, iss_Pubkey = pubkey\<rparr>] \<and>
         signer_calls s' = signer_calls s @ [template] \<and> Serial template = serial)) \<and>
   (status w = None \<and> EnrollUser e conf w r s = Some (w', s'') \<and> status w' = Some 200 \<longrightarrow>
      (\<exists>user pk serial s1 cert s2 certString template.
         proxyAuthenticated e (AuthenticatingProxy conf) w r s = Some (user, True, w, s) \<and>
         readPubkey e r = Inr pk \<and>
         RecordIssuance e UserCert user pk s = (Inr serial, s1) \<and>
         sign e conf user [user] serial UserCert pk s1 = (Inr cert, s2) \<and>
         encodeCert e cert = Inr certString \<and>
         written w' = written w @ certString \<and>
         Serial cert = serial \<and>
         ledger s'' = ledger s @
           [\<lparr>iss_CertType = UserCert, iss_Principal = user, iss_Pubkey = pk\<rparr>] \<and>
         signer_calls s'' = signer_calls s @ [template] \<and> Serial template = serial))"
proof (intro conjI impI)
  assume "EnrollHost e conf hostname r s = (Inr certString, s')"
  from EnrollHost_success [OF this] obtain pubkey serial s1 cert where
    a: "readPubkey e r = Inr pubkey"
       "RecordIssuance e HostCert hostname pubkey s = (Inr serial, s1)"
       "signHost e conf hostname serial pubkey s1 = (Inr cert, s')"
       "encodeCert e cert = Inr certString"
    by blast
  from a(2) have s1: "ledger s1 = ledger s @
           [\<lparr>iss_CertType = HostCert, iss_Principal = hostname, iss_Pubkey = pubkey\<rparr>]"
      "signer_calls s1 = signer_calls s"
    by (auto simp: RecordIssuance_eq)
  from signHost_serial [OF a(3)] obtain template where
    b: "Serial cert = serial" "ledger s' = ledger s1"
       "signer_calls s' = signer_calls s1 @ [template]" "Serial template = serial"
    by blast
  from a b s1 show "\<exists>pubkey serial s1 cert template.
         readPubkey e r = Inr pubkey \<and>
         RecordIssuance e HostCert hostname pubkey s = (Inr serial, s1) \<and>
         signHost e conf hostname serial pubkey s1 = (Inr cert, s') \<and>
         encodeCert e cert = Inr certString \<and>
         Serial cert = serial \<and>
         ledger s' = ledger s @
           [\<lparr>iss_CertType = HostCert, iss_Principal = hostname, iss_Pubkey = pubkey\<rparr>] \<and>
         signer_calls s' = signer_calls s @ [template] \<and> Serial template = serial"
    by (intro exI [of _ pubkey] exI [of _ serial] exI [of _ s1] exI [of _ cert]
          exI [of _ template]) simp
next
  assume h: "status w = None \<and> EnrollUser e conf w r s = Some (w', s'') \<and> status w' = Some 200"
  then have h1: "status w = None" and h2: "EnrollUser e conf w r s = Some (w', s'')"
    and h3: "status w' = Some 200" by simp_all
  from EnrollUser_success [OF h1 h2 h3] obtain user pk serial s1 cert s2 certString where
    a: "proxyAuthenticated e (AuthenticatingProxy conf) w r s = Some (user, True, w, s)"
       "readPubkey e r = Inr pk"
       "RecordIssuance e UserCert user pk s = (Inr serial, s1)"
       "sign e conf user [user] serial UserCert pk s1 = (Inr cert, s2)"
       "encodeCert e cert = Inr certString"
       "w' = Write w certString"
       "s'' = s2\<lparr>log := log s2 @ [LogEnrollUser (key_Type pk) (EncodeToString e (key_Marshal pk)) user]\<rparr>"
    by blast
  from a(3) have s1: "ledger s1 = ledger s @
           [\<lparr>iss_CertType = UserCert, iss_Principal = user, iss_Pubkey = pk\<rparr>]"
      "signer_calls s1 = signer_calls s"
    by (auto simp: RecordIssuance_eq)
  from sign_serial [OF a(4)] obtain template where
    b: "Serial cert = serial" "ledger s2 = ledger s1"
       "signer_calls s2 = signer_calls s1 @ [template]" "Serial template = serial"
    by blast
  from a(6) h1 have w: "written w' = written w @ certString"
    by (simp add: Write_fresh)
  from a b s1 w show "\<exists>user pk serial s1 cert s2 certString template.
         proxyAuthenticated e (AuthenticatingProxy conf) w r s = Some (user, True, w, s) \<and>
         readPubkey e r = Inr pk \<and>
         RecordIssuance e UserCert user pk s = (Inr serial, s1) \<and>
         sign e conf user [user] serial UserCert pk s1 = (Inr cert, s2) \<and>
         encodeCert e cert = Inr certString \<and>
         written w' = written w @ certString \<and>
         Serial cert = serial \<and>
         ledger s'' = ledger s @
           [\<lparr>iss_CertType = UserCert, iss_Principal = user, iss_Pubkey = pk\<rparr>] \<and>
         signer_calls s'' = signer_calls s @ [template] \<and> Serial template = serial"
    by (intro exI [of _ user] exI [of _ pk] exI [of _ serial] exI [of _ s1] exI [of _ cert]
          exI [of _ s2] exI [of _ certString] exI [of _ template]) simp
qed

text \<open>The theorem at the example host request and the example user request.\<close>

theorem certificate_serial_from_ledger_witness:
  "ledger_reply example_env (ledger example_world)
     \<lparr>iss_CertType = HostCert, iss_Principal = ''host.example.com'', iss_Pubkey = example_key\<rparr>
     = Inr 1 \<and>
   \<not> isl (fst example_host_run) \<and>
   map Serial (signer_calls (snd example_host_run)) = [1] \<and>
   ledger_reply example_env (ledger example_world)
     \<lparr>iss_CertType = UserCert, iss_Principal = ''alice'', iss_Pubkey = example_key\<rparr>
     = Inr 1 \<and>
   status (fst (the example_user_run)) = Some 200 \<and>
   map Serial (signer_calls (snd (the example_user_run))) = [1]"
proof -
  have w: "status example_response = None" by (simp add: example_response_def)
  have s0: "signer_calls example_world = []" "ledger example_world = []"
    by (simp_all add: example_world_def)
  have host: "EnrollHost example_env example_config ''host.example.com'' example_host_request
                example_world = (Inr (projr (fst example_host_run)), snd example_host_run)"
    using example_host_run_ok pair_Inr_projr [of example_host_run]
    by (simp add: example_host_run_def [symmetric])
  have user: "status example_response = None \<and>
              EnrollUser example_env example_config example_response example_user_request
                example_world = Some (fst (the example_user_run), snd (the example_user_run)) \<and>
              status (fst (the example_user_run)) = Some 200"
    using example_user_run_ledger option_pair_the [of example_user_run] w
    by (simp add: example_user_run_def [symmetric])
  have hk: "readPubkey example_env example_host_request = Inr example_key"
    by (simp add: readPubkey_def example_env_def example_host_request_def)
  have uk: "readPubkey example_env example_user_request = Inr example_key"
    by (simp add: readPubkey_def example_env_def example_user_request_def)
  have reply: "ledger_reply example_env [] call = Inr 1" for call
    by (simp add: example_env_def)
  have rec: "RecordIssuance example_env t p k example_world = (Inr n, s1) \<Longrightarrow> n = 1" for t p k n s1
    by (simp add: RecordIssuance_def Let_def s0 reply)
  from certificate_serial_from_ledger [where e = example_env and conf = example_config
      and hostname = "''host.example.com''" and r = example_host_request and s = example_world
      and certString = "projr (fst example_host_run)" and s' = "snd example_host_run",
      THEN conjunct1] host
  have A: "map Serial (signer_calls (snd example_host_run)) = [1]"
    by (auto simp: s0 dest!: rec)
  from certificate_serial_from_ledger [where e = example_env and conf = example_config
      and r = example_user_request and s = example_world and w = example_response
      and w' = "fst (the example_user_run)" and s'' = "snd (the example_user_run)",
      THEN conjunct2] user
  have B: "map Serial (signer_calls (snd (the example_user_run))) = [1]"
    by (auto simp: s0 dest!: rec)
  from A B user example_host_run_ok show ?thesis
    by (simp add: s0 reply)
qed

subsection \<open>Principals of a host certificate\<close>

text \<open>
  Claim C2. Every host certificate that \<^verbatim>\<open>signHost\<close> returns for the identity \<open>h\<close> lists
  as principals \<open>h\<close> itself, then \<open>h\<close> without the configured suffix when that suffix is
  not empty and \<open>h\<close> ends with it, then the aliases configured for \<open>h\<close> in their
  configured order, and nothing else. With the suffix \<^verbatim>\<open>.example.com\<close> and the aliases
  \<^verbatim>\<open>a.example.com\<close>, \<^verbatim>\<open>b.example.com\<close> of \<^verbatim>\<open>host.example.com\<close> the list is
  \<^verbatim>\<open>host.example.com\<close>, \<^verbatim>\<open>host\<close>, \<^verbatim>\<open>a.example.com\<close>, \<^verbatim>\<open>b.example.com\<close>.
\<close>

theorem host_principals:
  assumes "signHost e conf h serial pubkey s = (Inr cert, s')"
  shows "(StripSuffix conf \<noteq> [] \<and> h = stem @ StripSuffix conf \<longrightarrow>
            ValidPrincipals cert =
              [h, stem] @ (case Aliases conf h of None \<Rightarrow> [] | Some as \<Rightarrow> as)) \<and>
         (StripSuffix conf = [] \<or> \<not> suffix (StripSuffix conf) h \<longrightarrow>
            ValidPrincipals cert =
              [h] @ (case Aliases conf h of None \<Rightarrow> [] | Some as \<Rightarrow> as)) \<and>
         (StripSuffix conf = ''.example.com'' \<and>
          Aliases conf = [''host.example.com'' \<mapsto> [''a.example.com'', ''b.example.com'']] \<and>
          h = ''host.example.com'' \<longrightarrow>
            ValidPrincipals cert =
              [''host.example.com'', ''host'', ''a.example.com'', ''b.example.com''])"
proof (intro conjI impI)
  assume "StripSuffix conf \<noteq> [] \<and> h = stem @ StripSuffix conf"
  then have "sign e conf h ([h, stem] @ (case Aliases conf h of None \<Rightarrow> [] | Some as \<Rightarrow> as))
               serial HostCert pubkey s = (Inr cert, s')"
    using assms signHost_stem [of conf h stem e serial pubkey s] by simp
  then show "ValidPrincipals cert = [h, stem] @ (case Aliases conf h of None \<Rightarrow> [] | Some as \<Rightarrow> as)"
    by (rule sign_principals)
next
  assume "StripSuffix conf = [] \<or> \<not> suffix (StripSuffix conf) h"
  then have "sign e conf h ([h] @ (case Aliases conf h of None \<Rightarrow> [] | Some as \<Rightarrow> as))
               serial HostCert pubkey s = (Inr cert, s')"
    using assms signHost_plain [of conf h e serial pubkey s] by simp
  then show "ValidPrincipals cert = [h] @ (case Aliases conf h of None \<Rightarrow> [] | Some as \<Rightarrow> as)"
    by (rule sign_principals)
next
  assume a: "StripSuffix conf = ''.example.com'' \<and>
          Aliases conf = [''host.example.com'' \<mapsto> [''a.example.com'', ''b.example.com'']] \<and>
          h = ''host.example.com''"
  then have "StripSuffix conf \<noteq> []" and "h = ''host'' @ StripSuffix conf" by simp_all
  then have "sign e conf h ([h, ''host''] @ (case Aliases conf h of None \<Rightarrow> [] | Some as \<Rightarrow> as))
               serial HostCert pubkey s = (Inr cert, s')"
    using assms signHost_stem [of conf h "''host''" e serial pubkey s] by simp
  then have "ValidPrincipals cert = [h, ''host''] @ (case Aliases conf h of None \<Rightarrow> [] | Some as \<Rightarrow> as)"
    by (rule sign_principals)
  with a show "ValidPrincipals cert =
              [''host.example.com'', ''host'', ''a.example.com'', ''b.example.com'']"
    by simp
qed

text \<open>
  The theorem at two requests: \<^verbatim>\<open>host.example.com\<close> under the configuration of the
  claim, and a host outside the suffix and without aliases.
\<close>

theorem host_principals_witness:
  "signHost example_env
     (example_config\<lparr>Aliases := [''host.example.com'' \<mapsto> [''a.example.com'', ''b.example.com'']]\<rparr>)
     ''host.example.com'' 7 example_key example_world
     = (Inr (projr (fst (signHost example_env
     (example_config\<lparr>Aliases := [''host.example.com'' \<mapsto> [''a.example.com'', ''b.example.com'']]\<rparr>)
     ''host.example.com'' 7 example_key example_world))), snd (signHost example_env
     (example_config\<lparr>Aliases := [''host.example.com'' \<mapsto> [''a.example.com'', ''b.example.com'']]\<rparr>)
     ''host.example.com'' 7 example_key example_world)) \<and>
   ValidPrincipals (projr (fst (signHost example_env
     (example_config\<lparr>Aliases := [''host.example.com'' \<mapsto> [''a.example.com'', ''b.example.com'']]\<rparr>)
     ''host.example.com'' 7 example_key example_world)))
     = [''host.example.com'', ''host'', ''a.example.com'', ''b.example.com''] \<and>
   ValidPrincipals (projr (fst (signHost example_env example_config
     ''db.internal'' 8 example_key example_world)))
     = [''db.internal'']"
proof -
  let ?conf = "example_config\<lparr>Aliases := [''host.example.com'' \<mapsto> [''a.example.com'', ''b.example.com'']]\<rparr>"
  let ?res = "signHost example_env ?conf ''host.example.com'' 7 example_key example_world"
  let ?res2 = "signHost example_env example_config ''db.internal'' 8 example_key example_world"
  have "\<not> isl (fst ?res)"
    by (simp add: signHost_def sign_def getDurationForCertType_def example_config_def example_key_def example_env_def example_world_def Let_def)
  then have h: "?res = (Inr (projr (fst ?res)), snd ?res)"
    by (rule pair_Inr_projr)
  have "\<not> isl (fst ?res2)"
    by (simp add: signHost_def sign_def getDurationForCertType_def example_config_def example_key_def example_env_def example_world_def Let_def)
  then have h2: "?res2 = (Inr (projr (fst ?res2)), snd ?res2)"
    by (rule pair_Inr_projr)
  have c: "StripSuffix ?conf = ''.example.com'' \<and>
          Aliases ?conf = [''host.example.com'' \<mapsto> [''a.example.com'', ''b.example.com'']] \<and>
          ''host.example.com'' = ''host.example.com''"
    by (simp add: example_config_def example_key_def example_env_def example_world_def)
  have c2: "StripSuffix example_config = [] \<or> \<not> suffix (StripSuffix example_config) ''db.internal''"
    by (simp add: example_config_def example_key_def example_env_def example_world_def suffix_def)
  have a2: "Aliases example_config ''db.internal'' = None"
    by (simp add: example_config_def example_key_def example_env_def example_world_def)
  from host_principals [OF h] c host_principals [OF h2] c2 a2 h show ?thesis
    by simp
qed

subsection \<open>Principals of a user certificate\<close>

text \<open>
  Claim C3. Every user enrollment that succeeds for the user name \<open>u\<close> (the value of the
  configured header) signs a certificate whose principals are exactly \<open>[u]\<close>; the
  configured suffix and aliases play no part, also when \<open>u\<close> is a key of the alias map
  or ends with the suffix.
\<close>

theorem user_principals:
  assumes "status w = None" and "EnrollUser e conf w r s = Some (w', s')"
    and "status w' = Some 200"
  shows "\<exists>p user pk serial s1 cert s2 certString template.
           AuthenticatingProxy conf = Some p \<and>
           user = Header_Get e (Header r) (UsernameHeader p) \<and> user \<noteq> [] \<and>
           sign e conf user [user] serial UserCert pk s1 = (Inr cert, s2) \<and>
           encodeCert e cert = Inr certString \<and>
           written w' = written w @ certString \<and>
           ValidPrincipals cert = [user] \<and> KeyId cert = user \<and> CertType cert = UserCert \<and>
           signer_calls s' = signer_calls s @ [template] \<and>
           ValidPrincipals template = [user]"
proof -
  from EnrollUser_success [OF assms] obtain user pk serial s1 cert s2 certString where
    a: "proxyAuthenticated e (AuthenticatingProxy conf) w r s = Some (user, True, w, s)"
       "readPubkey e r = Inr pk"
       "RecordIssuance e UserCert user pk s = (Inr serial, s1)"
       "sign e conf user [user] serial UserCert pk s1 = (Inr cert, s2)"
       "encodeCert e cert = Inr certString"
       "w' = Write w certString"
       "s' = s2\<lparr>log := log s2 @ [LogEnrollUser (key_Type pk) (EncodeToString e (key_Marshal pk)) user]\<rparr>"
    by blast
  from proxyAuthenticated_ok [OF a(1)] obtain p where
    p: "AuthenticatingProxy conf = Some p" "user = Header_Get e (Header r) (UsernameHeader p)"
       "user \<noteq> []"
    by blast
  from a(3) have s1: "signer_calls s1 = signer_calls s"
    by (auto simp: RecordIssuance_eq)
  from sign_serial [OF a(4)] obtain template where
    t: "signer_calls s2 = signer_calls s1 @ [template]" "ValidPrincipals template = [user]"
    by blast
  from sign_principals [OF a(4)] sign_fields [OF a(4)]
  have c: "ValidPrincipals cert = [user]" "KeyId cert = user" "CertType cert = UserCert"
    by simp_all
  from a(6) assms(1) have w: "written w' = written w @ certString"
    by (simp add: Write_fresh)
  from p a(4,5,7) s1 t c w show ?thesis
    by (intro exI [of _ p] exI [of _ user] exI [of _ pk] exI [of _ serial] exI [of _ s1]
          exI [of _ cert] exI [of _ s2] exI [of _ certString] exI [of _ template]) simp
qed

text \<open>
  The theorem at a user named \<^verbatim>\<open>host.example.com\<close>, which has aliases in the example
  configuration and ends with its suffix.
\<close>

theorem user_principals_witness:
  "Aliases example_config ''host.example.com'' =
     Some [''alias1.example.com'', ''alias2.example.com''] \<and>
   HasSuffix ''host.example.com'' (StripSuffix example_config) \<and>
   status (fst (the hostlike_user_run)) = Some 200 \<and>
   map ValidPrincipals (signer_calls (snd (the hostlike_user_run))) = [ [''host.example.com''] ]"
proof -
  let ?r = "example_user_request\<lparr>Header := [''X-Forwarded-User'' \<mapsto> [''host.example.com'']]\<rparr>"
  have w: "status example_response = None" by (simp add: example_response_def)
  have run: "EnrollUser example_env example_config example_response ?r example_world
               = Some (fst (the hostlike_user_run), snd (the hostlike_user_run))"
    using hostlike_user_run_ok option_pair_the [of hostlike_user_run]
    by (simp add: hostlike_user_run_def [symmetric])
  have ok: "status (fst (the hostlike_user_run)) = Some 200"
    using hostlike_user_run_ok by simp
  have cfg: "Aliases example_config ''host.example.com'' =
     Some [''alias1.example.com'', ''alias2.example.com''] \<and>
     HasSuffix ''host.example.com'' (StripSuffix example_config)"
    by (simp add: example_config_def HasSuffix_def)
  have user: "AuthenticatingProxy example_config = Some p \<Longrightarrow>
      Header_Get example_env (Header ?r) (UsernameHeader p) = ''host.example.com''" for p
    by (auto simp: example_config_def example_env_def Header_Get_def)
  have s0: "signer_calls example_world = []" by (simp add: example_world_def)
  from user_principals [OF w run ok] user s0
  have "map ValidPrincipals (signer_calls (snd (the hostlike_user_run))) = [ [''host.example.com''] ]"
    by auto
  with cfg ok show ?thesis by simp
qed

subsection \<open>Extensions by certificate type\<close>

text \<open>
  Claim C4. Every certificate that \<^verbatim>\<open>sign\<close> returns has no extensions (and no critical
  options) when its type is the host type, whatever extensions are configured for user
  certificates. When its type is the user type and the configured list is not empty, the
  names in its extensions are exactly the configured names, and each is mapped to the
  empty string.
\<close>

theorem extensions_by_cert_type:
  assumes "sign e conf keyId principals serial certType pubkey s = (Inr cert, s')"
  shows "(certType = HostCert \<longrightarrow>
            Extensions (Permissions cert) = Map.empty \<and>
            CriticalOptions (Permissions cert) = Map.empty) \<and>
         (certType = UserCert \<and> UserCertExtensions (SSH conf) \<noteq> [] \<longrightarrow>
            dom (Extensions (Permissions cert)) = set (UserCertExtensions (SSH conf)) \<and>
            (\<forall>name \<in> set (UserCertExtensions (SSH conf)).
               Extensions (Permissions cert) name = Some []))"
proof -
  from sign_Inr [OF assms]
  have p: "Permissions cert = getPermissionsForCertType (Some (SSH conf)) certType"
    by auto
  show ?thesis
    by (simp add: p getPermissionsForCertType_def HostCert_def UserCert_def
          fold_upd_dom fold_upd_val)
qed

text \<open>The theorem at a host and a user certificate under the example configuration.\<close>

theorem extensions_by_cert_type_witness:
  "Extensions (Permissions (projr (fst
     (sign example_env example_config ''host.example.com'' [''host.example.com''] 1 HostCert
        example_key example_world)))) = Map.empty \<and>
   dom (Extensions (Permissions (projr (fst
     (sign example_env example_config ''alice'' [''alice''] 2 UserCert
        example_key example_world))))) =
     {''permit-X11-forwarding'', ''permit-agent-forwarding'', ''permit-port-forwarding'',
      ''permit-pty'', ''permit-user-rc''} \<and>
   Extensions (Permissions (projr (fst
     (sign example_env example_config ''alice'' [''alice''] 2 UserCert
        example_key example_world)))) ''permit-pty'' = Some []"
proof -
  let ?h = "sign example_env example_config ''host.example.com'' [''host.example.com''] 1 HostCert
        example_key example_world"
  let ?u = "sign example_env example_config ''alice'' [''alice''] 2 UserCert
        example_key example_world"
  have h: "?h = (Inr (projr (fst ?h)), snd ?h)"
    by (rule pair_Inr_projr) (simp add: example_sign_ok)
  have u: "?u = (Inr (projr (fst ?u)), snd ?u)"
    by (rule pair_Inr_projr) (simp add: example_sign_ok)
  have c: "UserCertExtensions (SSH example_config) =
      [''permit-X11-forwarding'', ''permit-agent-forwarding'', ''permit-port-forwarding'',
      ''permit-pty'', ''permit-user-rc'']"
    by (simp add: example_config_def example_key_def example_env_def example_world_def)
  from extensions_by_cert_type [OF h] extensions_by_cert_type [OF u] c
  show ?thesis by simp
qed

subsection \<open>The validity window\<close>

text \<open>
  Claim C5, as stated, at a duration of 1.5 seconds: the duration resolves, the
  certificate is signed, and its window is one second long, not 1.5 seconds. The two
  bounds of a certificate are whole seconds.
\<close>

theorem validity_window_counterexample:
  "getDurationForCertType example_env subsecond_config HostCert = Inr 1500000000 \<and>
   \<not> isl (fst subsecond_run) \<and>
   uint (ValidAfter (projr (fst subsecond_run))) = 1700000000 \<and>
   uint (ValidBefore (projr (fst subsecond_run))) = 1700000001 \<and>
   (uint (ValidBefore (projr (fst subsecond_run))) - uint (ValidAfter (projr (fst subsecond_run))))
      * 1000000000 \<noteq> 1500000000"
  by (simp add: subsecond_config_def subsecond_run_def sign_def getDurationForCertType_def example_config_def example_key_def example_env_def example_world_def Let_def
        Unix_def Add_def)

text \<open>
  Claim C5, amended. For every certificate that \<^verbatim>\<open>sign\<close> returns, with \<open>d\<close> the
  duration resolved for its type in nanoseconds: \<open>ValidAfter\<close> is the current time in
  whole Unix seconds, rounded down, and \<open>ValidBefore\<close> is the Unix second of the current
  time plus \<open>d\<close>, both as 64-bit values. When \<open>d\<close> is a whole number of seconds,
  \<open>ValidBefore - ValidAfter\<close> is exactly \<open>d\<close> in seconds; for 168 hours it is 168 * 3600.
  When the two instants are not before the epoch and their seconds fit 64 bits, the
  difference of the two numbers is \<open>d\<close> in seconds rounded down, or one more.
\<close>

theorem validity_window:
  assumes "sign e conf keyId principals serial certType pubkey s = (Inr cert, s')"
    and "getDurationForCertType e conf certType = Inr d"
  shows "ValidAfter cert = word_of_int (Now e div 1000000000) \<and>
         ValidBefore cert = word_of_int ((Now e + d) div 1000000000) \<and>
         (d mod 1000000000 = 0 \<longrightarrow>
            ValidBefore cert - ValidAfter cert = word_of_int (d div 1000000000)) \<and>
         (d = 168 * 3600 * 1000000000 \<longrightarrow> ValidBefore cert - ValidAfter cert = 168 * 3600) \<and>
         (0 \<le> Now e \<and> 0 \<le> Now e + d \<and>
          Now e div 1000000000 < 2 ^ 64 \<and> (Now e + d) div 1000000000 < 2 ^ 64 \<longrightarrow>
            uint (ValidAfter cert) = Now e div 1000000000 \<and>
            uint (ValidBefore cert) = (Now e + d) div 1000000000 \<and>
            d div 1000000000 \<le> uint (ValidBefore cert) - uint (ValidAfter cert) \<and>
            uint (ValidBefore cert) - uint (ValidAfter cert) \<le> d div 1000000000 + 1 \<and>
            (d mod 1000000000 = 0 \<longrightarrow>
               uint (ValidBefore cert) - uint (ValidAfter cert) = d div 1000000000))"
proof -
  note w = sign_window [OF assms]
  have whole: "ValidBefore cert - ValidAfter cert = word_of_int (d div 1000000000)"
    if "d mod 1000000000 = 0"
  proof -
    have "ValidBefore cert - ValidAfter cert =
            word_of_int ((Now e + d) div 1000000000 - Now e div 1000000000)"
      by (simp add: w)
    also have "(Now e + d) div 1000000000 - Now e div 1000000000 = d div 1000000000"
      by (rule div_whole) (use that in simp_all)
    finally show ?thesis .
  qed
  have hours: "ValidBefore cert - ValidAfter cert = 168 * 3600" if "d = 168 * 3600 * 1000000000"
  proof -
    from that have "d mod 1000000000 = 0" "d div 1000000000 = 604800" by simp_all
    with whole show ?thesis by simp
  qed
  have range: "uint (ValidAfter cert) = Now e div 1000000000 \<and>
            uint (ValidBefore cert) = (Now e + d) div 1000000000 \<and>
            d div 1000000000 \<le> uint (ValidBefore cert) - uint (ValidAfter cert) \<and>
            uint (ValidBefore cert) - uint (ValidAfter cert) \<le> d div 1000000000 + 1 \<and>
            (d mod 1000000000 = 0 \<longrightarrow>
               uint (ValidBefore cert) - uint (ValidAfter cert) = d div 1000000000)"
    if r: "0 \<le> Now e \<and> 0 \<le> Now e + d \<and>
          Now e div 1000000000 < 2 ^ 64 \<and> (Now e + d) div 1000000000 < 2 ^ 64"
  proof -
    from r have "0 \<le> Now e div 1000000000" "0 \<le> (Now e + d) div 1000000000"
      by (simp_all add: pos_imp_zdiv_nonneg_iff)
    with r have a: "uint (ValidAfter cert) = Now e div 1000000000"
      and b: "uint (ValidBefore cert) = (Now e + d) div 1000000000"
      by (simp_all add: w uint_u64)
    have c: "d div 1000000000 \<le> (Now e + d) div 1000000000 - Now e div 1000000000 \<and>
             (Now e + d) div 1000000000 - Now e div 1000000000 \<le> d div 1000000000 + 1"
      by (rule div_floor_ceil) simp
    have "(Now e + d) div 1000000000 - Now e div 1000000000 = d div 1000000000"
      if "d mod 1000000000 = 0"
      by (rule div_whole) (use that in simp_all)
    with a b c show ?thesis by simp
  qed
  from w whole hours range show ?thesis by blast
qed

text \<open>The theorem at the example configuration, whose host duration is 168 hours.\<close>

theorem validity_window_witness:
  "getDurationForCertType example_env example_config HostCert = Inr (168 * 3600 * 1000000000) \<and>
   ValidAfter (projr (fst example_sign_run)) = 1700000000 \<and>
   ValidBefore (projr (fst example_sign_run)) - ValidAfter (projr (fst example_sign_run))
     = 168 * 3600 \<and>
   uint (ValidBefore (projr (fst example_sign_run))) - uint (ValidAfter (projr (fst example_sign_run)))
     = 604800"
proof -
  have d: "getDurationForCertType example_env example_config HostCert
             = Inr (168 * 3600 * 1000000000)"
    by (simp add: getDurationForCertType_def example_config_def example_key_def example_env_def example_world_def)
  have "\<not> isl (fst example_sign_run)"
    by (simp add: example_sign_run_def example_sign_ok)
  then have h: "sign example_env example_config ''host.example.com'' [''host.example.com''] 1
                  HostCert example_key example_world
                = (Inr (projr (fst example_sign_run)), snd example_sign_run)"
    unfolding example_sign_run_def by (rule pair_Inr_projr)
  have n: "Now example_env = 1700000000123456789"
    by (simp add: example_config_def example_key_def example_env_def example_world_def)
  from validity_window [OF h d] d n show ?thesis
    by simp
qed

subsection \<open>Rejected host enrollments\<close>

text \<open>
  Claim C6. A host enrollment whose list of verified chains is empty is answered with
  status 401; one whose first chain has a leaf that does not validate for the claimed
  host name is answered with status 403. In both cases the handler returns with the
  ledger, the signer and the log as they were: \<^verbatim>\<open>RecordIssuance\<close> is not called.
\<close>

theorem host_enrollment_rejections:
  assumes "status w = None" and "TLS r = Some conn"
  shows "(VerifiedChains conn = [] \<longrightarrow>
            Enroll e conf w r s =
              Some (\<lparr>status = Some 401,
                      written = written w @ ''no client certificate provided'' @ [CHR 0x0A]\<rparr>, s)) \<and>
         (VerifiedChains conn = (leaf # rest) # others \<and>
          VerifyHostname e leaf (case Vars r ''hostname'' of None \<Rightarrow> [] | Some h \<Rightarrow> h) \<noteq> None \<longrightarrow>
            Enroll e conf w r s =
              Some (\<lparr>status = Some 403,
                      written = written w @ ''hostname does not match certificate'' @ [CHR 0x0A]\<rparr>, s))"
  using assms
  by (auto simp: Enroll_def clientAuthenticated_eq clientHostnameMatches_leaf http_Error_fresh)

text \<open>The theorem at a request without a chain and at one with the chain of another host.\<close>

theorem host_enrollment_rejections_witness:
  "Enroll example_env example_config example_response
     (example_host_request\<lparr>TLS := Some \<lparr>VerifiedChains = []\<rparr>\<rparr>) example_world =
     Some (\<lparr>status = Some 401, written = ''no client certificate provided'' @ [CHR 0x0A]\<rparr>,
           example_world) \<and>
   Enroll example_env example_config example_response
     (example_host_request\<lparr>TLS := Some \<lparr>VerifiedChains = [ [X509 ''other.example.com''] ]\<rparr>\<rparr>)
     example_world =
     Some (\<lparr>status = Some 403, written = ''hostname does not match certificate'' @ [CHR 0x0A]\<rparr>,
           example_world)"
proof -
  let ?r1 = "example_host_request\<lparr>TLS := Some \<lparr>VerifiedChains = []\<rparr>\<rparr>"
  let ?r2 = "example_host_request\<lparr>TLS := Some \<lparr>VerifiedChains = [ [X509 ''other.example.com''] ]\<rparr>\<rparr>"
  have w: "status example_response = None" "written example_response = []"
    by (simp_all add: example_response_def)
  have t1: "TLS ?r1 = Some \<lparr>VerifiedChains = []\<rparr>" by simp
  have t2: "TLS ?r2 = Some \<lparr>VerifiedChains = [ [X509 ''other.example.com''] ]\<rparr>" by simp
  have v: "VerifyHostname example_env (X509 ''other.example.com'')
             (case Vars ?r2 ''hostname'' of None \<Rightarrow> [] | Some h \<Rightarrow> h) \<noteq> None"
    by (simp add: example_env_def example_host_request_def)
  from host_enrollment_rejections [OF w(1) t1,
      where e = example_env and conf = example_config and s = example_world]
    host_enrollment_rejections [OF w(1) t2,
      where leaf = "X509 ''other.example.com''" and rest = "[]" and others = "[]"
        and e = example_env and conf = example_config and s = example_world] v w(2)
  show ?thesis by simp
qed

subsection \<open>Authorization through the proxy\<close>

text \<open>
  Claim C7. A user enrollment is answered with status 404 when no proxy is configured,
  with 401 when the connection has no verified chain or the leaf of its first chain does
  not validate for the configured proxy host name, and with 401 when the configured header
  is missing or empty; in each of these cases nothing is written to the ledger and
  nothing is handed to the signer. \<^verbatim>\<open>proxyAuthenticated\<close> succeeds only with a proxy
  configured, a matching leaf and a user name that is not empty, and a request that
  writes to the ledger or signs has passed it.
\<close>

theorem proxy_authorization:
  assumes "status w = None"
  shows "(AuthenticatingProxy conf = None \<longrightarrow>
            (\<exists>w' s'. EnrollUser e conf w r s = Some (w', s') \<and> status w' = Some 404 \<and>
               ledger s' = ledger s \<and> signer_calls s' = signer_calls s)) \<and>
         (AuthenticatingProxy conf = Some p \<and> TLS r = Some conn \<and> VerifiedChains conn = [] \<longrightarrow>
            (\<exists>w' s'. EnrollUser e conf w r s = Some (w', s') \<and> status w' = Some 401 \<and>
               ledger s' = ledger s \<and> signer_calls s' = signer_calls s)) \<and>
         (AuthenticatingProxy conf = Some p \<and> TLS r = Some conn \<and>
          VerifiedChains conn = (leaf # rest) # others \<and>
          VerifyHostname e leaf (Hostname p) \<noteq> None \<longrightarrow>
            (\<exists>w' s'. EnrollUser e conf w r s = Some (w', s') \<and> status w' = Some 401 \<and>
               ledger s' = ledger s \<and> signer_calls s' = signer_calls s)) \<and>
         (AuthenticatingProxy conf = Some p \<and> TLS r = Some conn \<and>
          VerifiedChains conn = (leaf # rest) # others \<and>
          VerifyHostname e leaf (Hostname p) = None \<and>
          Header_Get e (Header r) (UsernameHeader p) = [] \<longrightarrow>
            (\<exists>w' s'. EnrollUser e conf w r s = Some (w', s') \<and> status w' = Some 401 \<and>
               ledger s' = ledger s \<and> signer_calls s' = signer_calls s)) \<and>
         (proxyAuthenticated e (AuthenticatingProxy conf) w r s = Some (user, True, w1, s1) \<longrightarrow>
            (\<exists>p' c l ls cs. AuthenticatingProxy conf = Some p' \<and> TLS r = Some c \<and>
               VerifiedChains c = (l # ls) # cs \<and> VerifyHostname e l (Hostname p') = None \<and>
               user = Header_Get e (Header r) (UsernameHeader p') \<and> user \<noteq> [])) \<and>
         (EnrollUser e conf w r s = Some (w2, s2) \<and>
          (ledger s2 \<noteq> ledger s \<or> signer_calls s2 \<noteq> signer_calls s) \<longrightarrow>
            (\<exists>u. u \<noteq> [] \<and>
               proxyAuthenticated e (AuthenticatingProxy conf) w r s = Some (u, True, w, s)))"
proof (intro conjI impI)
  assume "AuthenticatingProxy conf = None"
  with assms show "\<exists>w' s'. EnrollUser e conf w r s = Some (w', s') \<and> status w' = Some 404 \<and>
               ledger s' = ledger s \<and> signer_calls s' = signer_calls s"
    by (simp add: EnrollUser_def proxyAuthenticated_def logHttpError_fresh)
next
  assume "AuthenticatingProxy conf = Some p \<and> TLS r = Some conn \<and> VerifiedChains conn = []"
  with assms show "\<exists>w' s'. EnrollUser e conf w r s = Some (w', s') \<and> status w' = Some 401 \<and>
               ledger s' = ledger s \<and> signer_calls s' = signer_calls s"
    by (simp add: EnrollUser_def proxyAuthenticated_def clientAuthenticated_eq logHttpError_fresh)
next
  assume "AuthenticatingProxy conf = Some p \<and> TLS r = Some conn \<and>
          VerifiedChains conn = (leaf # rest) # others \<and>
          VerifyHostname e leaf (Hostname p) \<noteq> None"
  with assms show "\<exists>w' s'. EnrollUser e conf w r s = Some (w', s') \<and> status w' = Some 401 \<and>
               ledger s' = ledger s \<and> signer_calls s' = signer_calls s"
    by (auto simp: EnrollUser_def proxyAuthenticated_def clientAuthenticated_eq
          clientHostnameMatches_leaf logHttpError_fresh)
next
  assume "AuthenticatingProxy conf = Some p \<and> TLS r = Some conn \<and>
          VerifiedChains conn = (leaf # rest) # others \<and>
          VerifyHostname e leaf (Hostname p) = None \<and>
          Header_Get e (Header r) (UsernameHeader p) = []"
  with assms show "\<exists>w' s'. EnrollUser e conf w r s = Some (w', s') \<and> status w' = Some 401 \<and>
               ledger s' = ledger s \<and> signer_calls s' = signer_calls s"
    by (simp add: EnrollUser_def proxyAuthenticated_def clientAuthenticated_eq
          clientHostnameMatches_leaf logHttpError_fresh)
next
  assume "proxyAuthenticated e (AuthenticatingProxy conf) w r s = Some (user, True, w1, s1)"
  from proxyAuthenticated_ok [OF this] obtain p' where
    p: "AuthenticatingProxy conf = Some p'" "clientHostnameMatches e (Hostname p') r = Some True"
       "user = Header_Get e (Header r) (UsernameHeader p')" "user \<noteq> []"
    by blast
  from clientHostnameMatches_True [OF p(2)] p
  show "\<exists>p' c l ls cs. AuthenticatingProxy conf = Some p' \<and> TLS r = Some c \<and>
               VerifiedChains c = (l # ls) # cs \<and> VerifyHostname e l (Hostname p') = None \<and>
               user = Header_Get e (Header r) (UsernameHeader p') \<and> user \<noteq> []"
    by blast
next
  assume a: "EnrollUser e conf w r s = Some (w2, s2) \<and>
          (ledger s2 \<noteq> ledger s \<or> signer_calls s2 \<noteq> signer_calls s)"
  then obtain u ok w1 s1 where
    p: "proxyAuthenticated e (AuthenticatingProxy conf) w r s = Some (u, ok, w1, s1)"
    by (auto simp: EnrollUser_def split: option.splits)
  have ok: "ok"
  proof (rule ccontr)
    assume "\<not> ok"
    with p a have "s2 = s1"
      and "proxyAuthenticated e (AuthenticatingProxy conf) w r s = Some (u, False, w1, s1)"
      by (auto simp: EnrollUser_def)
    with proxyAuthenticated_rejected [OF assms] a show False by blast
  qed
  with p have "proxyAuthenticated e (AuthenticatingProxy conf) w r s = Some (u, True, w1, s1)"
    by simp
  from proxyAuthenticated_ok [OF this] this
  show "\<exists>u. u \<noteq> [] \<and>
          proxyAuthenticated e (AuthenticatingProxy conf) w r s = Some (u, True, w, s)"
    by auto
qed

text \<open>
  The theorem at the example user request, and at that request without a proxy
  configured, without a chain, with the chain of a host, and without the header.
\<close>

theorem proxy_authorization_witness:
  "status (fst (the (EnrollUser example_env (example_config\<lparr>AuthenticatingProxy := None\<rparr>)
      example_response example_user_request example_world))) = Some 404 \<and>
   ledger (snd (the (EnrollUser example_env (example_config\<lparr>AuthenticatingProxy := None\<rparr>)
      example_response example_user_request example_world))) = [] \<and>
   status (fst (the (EnrollUser example_env example_config example_response
      (example_user_request\<lparr>TLS := Some \<lparr>VerifiedChains = []\<rparr>\<rparr>) example_world))) = Some 401 \<and>
   status (fst (the (EnrollUser example_env example_config example_response
      (example_user_request\<lparr>TLS := Some \<lparr>VerifiedChains = [ [X509 ''host.example.com''] ]\<rparr>\<rparr>)
      example_world))) = Some 401 \<and>
   status (fst (the (EnrollUser example_env example_config example_response
      (example_user_request\<lparr>Header := Map.empty\<rparr>) example_world))) = Some 401 \<and>
   signer_calls (snd (the (EnrollUser example_env example_config example_response
      (example_user_request\<lparr>Header := Map.empty\<rparr>) example_world))) = [] \<and>
   (\<exists>p' c l ls cs. AuthenticatingProxy example_config = Some p' \<and>
      TLS example_user_request = Some c \<and> VerifiedChains c = (l # ls) # cs \<and>
      VerifyHostname example_env l (Hostname p') = None \<and>
      ''alice'' = Header_Get example_env (Header example_user_request) (UsernameHeader p')) \<and>
   (\<exists>u. u \<noteq> [] \<and>
      proxyAuthenticated example_env (AuthenticatingProxy example_config) example_response
        example_user_request example_world = Some (u, True, example_response, example_world))"
proof -
  let ?p = "\<lparr>Hostname = ''proxy.example.com'', UsernameHeader = ''X-Forwarded-User''\<rparr>"
  let ?conf0 = "example_config\<lparr>AuthenticatingProxy := None\<rparr>"
  let ?r1 = "example_user_request\<lparr>TLS := Some \<lparr>VerifiedChains = []\<rparr>\<rparr>"
  let ?r2 = "example_user_request\<lparr>TLS := Some \<lparr>VerifiedChains = [ [X509 ''host.example.com''] ]\<rparr>\<rparr>"
  let ?r3 = "example_user_request\<lparr>Header := Map.empty\<rparr>"
  let ?proxy_conn = "\<lparr>VerifiedChains = [ [X509 ''proxy.example.com''] ]\<rparr>"
  have w: "status example_response = None" by (simp add: example_response_def)
  have l0: "ledger example_world = []" "signer_calls example_world = []"
    by (simp_all add: example_world_def)
  have a: "AuthenticatingProxy ?conf0 = None" by simp
  have b: "AuthenticatingProxy example_config = Some ?p \<and> TLS ?r1 = Some \<lparr>VerifiedChains = []\<rparr> \<and>
           VerifiedChains \<lparr>VerifiedChains = []\<rparr> = []"
    by (simp add: example_config_def)
  have c: "AuthenticatingProxy example_config = Some ?p \<and>
           TLS ?r2 = Some \<lparr>VerifiedChains = [ [X509 ''host.example.com''] ]\<rparr> \<and>
           VerifiedChains \<lparr>VerifiedChains = [ [X509 ''host.example.com''] ]\<rparr>
             = (X509 ''host.example.com'' # []) # [] \<and>
           VerifyHostname example_env (X509 ''host.example.com'') (Hostname ?p) \<noteq> None"
    by (simp add: example_config_def example_env_def)
  have d: "AuthenticatingProxy example_config = Some ?p \<and> TLS ?r3 = Some ?proxy_conn \<and>
           VerifiedChains ?proxy_conn = (X509 ''proxy.example.com'' # []) # [] \<and>
           VerifyHostname example_env (X509 ''proxy.example.com'') (Hostname ?p) = None \<and>
           Header_Get example_env (Header ?r3) (UsernameHeader ?p) = []"
    by (simp add: example_config_def example_env_def example_user_request_def Header_Get_def)
  have f: "EnrollUser example_env example_config example_response example_user_request
             example_world = Some (fst (the example_user_run), snd (the example_user_run)) \<and>
           (ledger (snd (the example_user_run)) \<noteq> ledger example_world \<or>
            signer_calls (snd (the example_user_run)) \<noteq> signer_calls example_world)"
    using example_user_run_ledger option_pair_the [of example_user_run]
    by (simp add: example_user_run_def [symmetric] l0)
  note t = proxy_authorization [OF w]
  from t [where conf = ?conf0 and e = example_env and r = example_user_request
        and s = example_world, THEN conjunct1] a l0
  have A: "status (fst (the (EnrollUser example_env ?conf0 example_response example_user_request
             example_world))) = Some 404 \<and>
           ledger (snd (the (EnrollUser example_env ?conf0 example_response example_user_request
             example_world))) = []"
    by auto
  from t [where conf = example_config and e = example_env and r = ?r1 and p = ?p
        and conn = "\<lparr>VerifiedChains = []\<rparr>"
        and s = example_world, THEN conjunct2, THEN conjunct1] b
  have B: "status (fst (the (EnrollUser example_env example_config example_response ?r1
             example_world))) = Some 401"
    by auto
  from t [where conf = example_config and e = example_env and r = ?r2 and p = ?p
        and conn = "\<lparr>VerifiedChains = [ [X509 ''host.example.com''] ]\<rparr>"
        and leaf = "X509 ''host.example.com''" and rest = "[]" and others = "[]"
        and s = example_world, THEN conjunct2, THEN conjunct2, THEN conjunct1] c
  have C: "status (fst (the (EnrollUser example_env example_config example_response ?r2
             example_world))) = Some 401"
    by auto
  from t [where conf = example_config and e = example_env and r = ?r3 and p = ?p
        and conn = ?proxy_conn
        and leaf = "X509 ''proxy.example.com''" and rest = "[]" and others = "[]"
        and s = example_world, THEN conjunct2, THEN conjunct2, THEN conjunct2, THEN conjunct1] d l0
  have D: "status (fst (the (EnrollUser example_env example_config example_response ?r3
             example_world))) = Some 401 \<and>
           signer_calls (snd (the (EnrollUser example_env example_config example_response ?r3
             example_world))) = []"
    by auto
  from t [where conf = example_config and e = example_env and r = example_user_request
        and s = example_world and user = "''alice''" and ?w1.0 = example_response
        and ?s1.0 = example_world,
        THEN conjunct2, THEN conjunct2, THEN conjunct2, THEN conjunct2, THEN conjunct1]
    example_proxy_ok
  have E: "\<exists>p' c l ls cs. AuthenticatingProxy example_config = Some p' \<and>
      TLS example_user_request = Some c \<and> VerifiedChains c = (l # ls) # cs \<and>
      VerifyHostname example_env l (Hostname p') = None \<and>
      ''alice'' = Header_Get example_env (Header example_user_request) (UsernameHeader p')"
    by blast
  from t [where conf = example_config and e = example_env and r = example_user_request
        and s = example_world and ?w2.0 = "fst (the example_user_run)"
        and ?s2.0 = "snd (the example_user_run)",
        THEN conjunct2, THEN conjunct2, THEN conjunct2, THEN conjunct2, THEN conjunct2] f
  have F: "\<exists>u. u \<noteq> [] \<and>
      proxyAuthenticated example_env (AuthenticatingProxy example_config) example_response
        example_user_request example_world = Some (u, True, example_response, example_world)"
    by blast
  from A B C D E F show ?thesis by blast
qed

subsection \<open>Internal errors\<close>

text \<open>
  Claim C8, as stated, at a user enrollment whose ledger write fails with the text
  \<^verbatim>\<open>disk full\<close>: the status is 500 and the body is that text and a newline, so the body
  contains the detail of the internal error.
\<close>

theorem internal_errors_status_500_counterexample:
  "ledger_reply failing_ledger_env (ledger example_world)
     \<lparr>iss_CertType = UserCert, iss_Principal = ''alice'', iss_Pubkey = example_key\<rparr>
     = Inl (Err ''disk full'') \<and>
   map_option fst failing_ledger_run =
     Some \<lparr>status = Some 500, written = ''disk full'' @ [CHR 0x0A]\<rparr> \<and>
   sublist (Error (Err ''disk full'')) (written (fst (the failing_ledger_run)))"
proof -
  have run: "map_option fst failing_ledger_run =
     Some \<lparr>status = Some 500, written = ''disk full'' @ [CHR 0x0A]\<rparr>"
    by (simp add: failing_ledger_run_def failing_ledger_env_def EnrollUser_def
          proxyAuthenticated_def clientAuthenticated_def clientHostnameMatches_def
          Header_Get_def readPubkey_def RecordIssuance_def logHttpError_fresh Let_def
          example_env_def example_config_def example_response_def example_user_request_def
          example_world_def)
  then have "written (fst (the failing_ledger_run)) = ''disk full'' @ [CHR 0x0A]"
    by (simp add: map_option_fst_the)
  then have "sublist (Error (Err ''disk full'')) (written (fst (the failing_ledger_run)))"
    by (simp add: sublist_def) (metis append_Nil)
  with run show ?thesis
    by (simp add: failing_ledger_env_def example_env_def)
qed

text \<open>
  Claim C8, amended. A request that fails at the ledger write or in \<^verbatim>\<open>sign\<close> is
  answered with status 500, in the user flow and in the host flow; in the user flow the
  body is the text of the internal error followed by a newline. \<^verbatim>\<open>sign\<close> fails exactly
  when the nonce cannot be read, the duration cannot be resolved or the signer fails,
  and with that error.
\<close>

theorem internal_errors_status_500:
  assumes "status w = None"
  shows "(proxyAuthenticated e (AuthenticatingProxy conf) w r s = Some (user, True, w, s) \<and>
          readPubkey e r = Inr pk \<and>
          RecordIssuance e UserCert user pk s = (Inl err, s1) \<longrightarrow>
            (\<exists>s'. EnrollUser e conf w r s =
               Some (\<lparr>status = Some 500, written = written w @ Error err @ [CHR 0x0A]\<rparr>, s'))) \<and>
         (proxyAuthenticated e (AuthenticatingProxy conf) w r s = Some (user, True, w, s) \<and>
          readPubkey e r = Inr pk \<and>
          RecordIssuance e UserCert user pk s = (Inr serial, s1) \<and>
          sign e conf user [user] serial UserCert pk s1 = (Inl err, s2) \<longrightarrow>
            (\<exists>s'. EnrollUser e conf w r s =
               Some (\<lparr>status = Some 500, written = written w @ Error err @ [CHR 0x0A]\<rparr>, s'))) \<and>
         (clientAuthenticated r = Some True \<and>
          clientHostnameMatches e (case Vars r ''hostname'' of None \<Rightarrow> [] | Some h \<Rightarrow> h) r
            = Some True \<and>
          readPubkey e r = Inr pk \<and>
          RecordIssuance e HostCert (case Vars r ''hostname'' of None \<Rightarrow> [] | Some h \<Rightarrow> h) pk s
            = (Inl err, s1) \<longrightarrow>
            (\<exists>w' s'. Enroll e conf w r s = Some (w', s') \<and> status w' = Some 500)) \<and>
         (clientAuthenticated r = Some True \<and>
          clientHostnameMatches e (case Vars r ''hostname'' of None \<Rightarrow> [] | Some h \<Rightarrow> h) r
            = Some True \<and>
          readPubkey e r = Inr pk \<and>
          RecordIssuance e HostCert (case Vars r ''hostname'' of None \<Rightarrow> [] | Some h \<Rightarrow> h) pk s
            = (Inr serial, s1) \<and>
          signHost e conf (case Vars r ''hostname'' of None \<Rightarrow> [] | Some h \<Rightarrow> h) serial pk s1
            = (Inl err, s2) \<longrightarrow>
            (\<exists>w' s'. Enroll e conf w r s = Some (w', s') \<and> status w' = Some 500)) \<and>
         (fst (sign e conf keyId ps serial t pk s) = Inl err \<longleftrightarrow>
            (rand_Read e 32 = Inl err \<or>
             (\<exists>nonce. rand_Read e 32 = Inr nonce \<and>
                (getDurationForCertType e conf t = Inl err \<or>
                 (\<exists>d. getDurationForCertType e conf t = Inr d \<and>
                    SignCert e
                      \<lparr>Nonce = nonce, Key = pk, Serial = serial, CertType = t, KeyId = keyId,
                       ValidPrincipals = ps,
                       ValidAfter = word_of_int (Unix (Now e)),
                       ValidBefore = word_of_int (Unix (Add (Now e) d)),
                       Permissions = getPermissionsForCertType (Some (SSH conf)) t,
                       SignatureKey = None, Signature = None\<rparr> = Inl err)))))"
proof (intro conjI impI)
  assume "proxyAuthenticated e (AuthenticatingProxy conf) w r s = Some (user, True, w, s) \<and>
          readPubkey e r = Inr pk \<and>
          RecordIssuance e UserCert user pk s = (Inl err, s1)"
  with assms show "\<exists>s'. EnrollUser e conf w r s =
               Some (\<lparr>status = Some 500, written = written w @ Error err @ [CHR 0x0A]\<rparr>, s')"
    by (simp add: EnrollUser_def logHttpError_fresh)
next
  assume "proxyAuthenticated e (AuthenticatingProxy conf) w r s = Some (user, True, w, s) \<and>
          readPubkey e r = Inr pk \<and>
          RecordIssuance e UserCert user pk s = (Inr serial, s1) \<and>
          sign e conf user [user] serial UserCert pk s1 = (Inl err, s2)"
  with assms show "\<exists>s'. EnrollUser e conf w r s =
               Some (\<lparr>status = Some 500, written = written w @ Error err @ [CHR 0x0A]\<rparr>, s')"
    by (simp add: EnrollUser_def logHttpError_fresh)
next
  let ?h = "case Vars r ''hostname'' of None \<Rightarrow> [] | Some h \<Rightarrow> h"
  assume "clientAuthenticated r = Some True \<and>
          clientHostnameMatches e ?h r = Some True \<and>
          readPubkey e r = Inr pk \<and>
          RecordIssuance e HostCert ?h pk s = (Inl err, s1)"
  with assms show "\<exists>w' s'. Enroll e conf w r s = Some (w', s') \<and> status w' = Some 500"
    by (simp add: Enroll_def EnrollHost_def http_Error_fresh)
next
  let ?h = "case Vars r ''hostname'' of None \<Rightarrow> [] | Some h \<Rightarrow> h"
  assume "clientAuthenticated r = Some True \<and>
          clientHostnameMatches e ?h r = Some True \<and>
          readPubkey e r = Inr pk \<and>
          RecordIssuance e HostCert ?h pk s = (Inr serial, s1) \<and>
          signHost e conf ?h serial pk s1 = (Inl err, s2)"
  with assms show "\<exists>w' s'. Enroll e conf w r s = Some (w', s') \<and> status w' = Some 500"
    by (simp add: Enroll_def EnrollHost_def http_Error_fresh)
next
  show "fst (sign e conf keyId ps serial t pk s) = Inl err \<longleftrightarrow>
            (rand_Read e 32 = Inl err \<or>
             (\<exists>nonce. rand_Read e 32 = Inr nonce \<and>
                (getDurationForCertType e conf t = Inl err \<or>
                 (\<exists>d. getDurationForCertType e conf t = Inr d \<and>
                    SignCert e
                      \<lparr>Nonce = nonce, Key = pk, Serial = serial, CertType = t, KeyId = keyId,
                       ValidPrincipals = ps,
                       ValidAfter = word_of_int (Unix (Now e)),
                       ValidBefore = word_of_int (Unix (Add (Now e) d)),
                       Permissions = getPermissionsForCertType (Some (SSH conf)) t,
                       SignatureKey = None, Signature = None\<rparr> = Inl err))))"
    by (rule sign_fails_iff)
qed

text \<open>
  The theorem at a failing ledger in both flows, at a failing random source in the user
  flow and at a host duration that does not parse.
\<close>

theorem internal_errors_status_500_witness:
  "map_option fst (EnrollUser failing_ledger_env example_config example_response
      example_user_request example_world) =
     Some \<lparr>status = Some 500, written = ''disk full'' @ [CHR 0x0A]\<rparr> \<and>
   map_option fst (EnrollUser (example_env\<lparr>rand_Read := (\<lambda>n. Inl (Err ''unexpected EOF''))\<rparr>)
      example_config example_response example_user_request example_world) =
     Some \<lparr>status = Some 500, written = ''unexpected EOF'' @ [CHR 0x0A]\<rparr> \<and>
   status (fst (the (Enroll failing_ledger_env example_config example_response
      example_host_request example_world))) = Some 500 \<and>
   status (fst (the (Enroll example_env (example_config\<lparr>HostCertDuration := ''soon''\<rparr>)
      example_response example_host_request example_world))) = Some 500 \<and>
   fst (sign (example_env\<lparr>rand_Read := (\<lambda>n. Inl (Err ''unexpected EOF''))\<rparr>) example_config
      ''alice'' [''alice''] 1 UserCert example_key example_world) = Inl (Err ''unexpected EOF'')"
proof -
  let ?rand = "example_env\<lparr>rand_Read := (\<lambda>n. Inl (Err ''unexpected EOF''))\<rparr>"
  let ?soon = "example_config\<lparr>HostCertDuration := ''soon''\<rparr>"
  let ?call = "\<lambda>t p. \<lparr>iss_CertType = t, iss_Principal = p, iss_Pubkey = example_key\<rparr>"
  let ?s1 = "\<lambda>t p. example_world\<lparr>ledger := ledger example_world @ [?call t p]\<rparr>"
  have w: "status example_response = None" "written example_response = []"
    by (simp_all add: example_response_def)
  have proxy: "proxyAuthenticated env (AuthenticatingProxy example_config) example_response
                 example_user_request example_world =
                 Some (''alice'', True, example_response, example_world)"
    if "env = failing_ledger_env \<or> env = ?rand" for env
    using that
    by (auto simp: proxyAuthenticated_def clientAuthenticated_def clientHostnameMatches_def
        Header_Get_def failing_ledger_env_def example_env_def example_config_def
        example_user_request_def)
  have ukey: "readPubkey env example_user_request = Inr example_key"
    if "env = failing_ledger_env \<or> env = ?rand" for env
    using that
    by (auto simp: readPubkey_def failing_ledger_env_def example_env_def example_user_request_def)
  have hkey: "readPubkey env example_host_request = Inr example_key"
    if "env = failing_ledger_env \<or> env = example_env" for env
    using that
    by (auto simp: readPubkey_def failing_ledger_env_def example_env_def example_host_request_def)
  have hauth: "clientAuthenticated example_host_request = Some True"
    by (simp add: clientAuthenticated_def example_host_request_def)
  have hname: "(case Vars example_host_request ''hostname'' of None \<Rightarrow> [] | Some h \<Rightarrow> h)
                 = ''host.example.com''"
    by (simp add: example_host_request_def)
  have hmatch: "clientHostnameMatches env ''host.example.com'' example_host_request = Some True"
    if "env = failing_ledger_env \<or> env = example_env" for env
    using that
    by (auto simp: clientHostnameMatches_def failing_ledger_env_def example_env_def
        example_host_request_def)
  have rec_fail: "RecordIssuance failing_ledger_env t p example_key example_world
                    = (Inl (Err ''disk full''), ?s1 t p)" for t p
    by (simp add: RecordIssuance_def failing_ledger_env_def example_env_def Let_def)
  have rec_ok: "RecordIssuance env t p example_key example_world = (Inr 1, ?s1 t p)"
    if "env = ?rand \<or> env = example_env" for env t p
    using that
    by (auto simp: RecordIssuance_def example_env_def example_world_def Let_def)
  have sign_rand: "sign ?rand example_config k ps n t example_key s = (Inl (Err ''unexpected EOF''), s)"
    for k ps n t s
    by (simp add: sign_def example_env_def)
  have sign_soon: "signHost example_env ?soon ''host.example.com'' 1 example_key s
                     = (Inl (Err ''time: invalid duration''), s)" for s
    by (simp add: signHost_def sign_def getDurationForCertType_def example_env_def
        example_config_def Let_def)
  note t = internal_errors_status_500 [OF w(1)]
  from t [where e = failing_ledger_env and conf = example_config and r = example_user_request
        and s = example_world and user = "''alice''" and pk = example_key
        and err = "Err ''disk full''" and ?s1.0 = "?s1 UserCert ''alice''", THEN conjunct1]
    proxy ukey rec_fail w(2)
  have A: "map_option fst (EnrollUser failing_ledger_env example_config example_response
      example_user_request example_world) =
     Some \<lparr>status = Some 500, written = ''disk full'' @ [CHR 0x0A]\<rparr>"
    by auto
  from t [where e = ?rand and conf = example_config and r = example_user_request
        and s = example_world and user = "''alice''" and pk = example_key and serial = 1
        and err = "Err ''unexpected EOF''" and ?s1.0 = "?s1 UserCert ''alice''"
        and ?s2.0 = "?s1 UserCert ''alice''", THEN conjunct2, THEN conjunct1]
    proxy ukey rec_ok sign_rand w(2)
  have B: "map_option fst (EnrollUser ?rand example_config example_response
      example_user_request example_world) =
     Some \<lparr>status = Some 500, written = ''unexpected EOF'' @ [CHR 0x0A]\<rparr>"
    by auto
  from t [where e = failing_ledger_env and conf = example_config and r = example_host_request
        and s = example_world and pk = example_key
        and err = "Err ''disk full''" and ?s1.0 = "?s1 HostCert ''host.example.com''",
        THEN conjunct2, THEN conjunct2, THEN conjunct1]
    hauth hname hmatch hkey rec_fail
  have C: "status (fst (the (Enroll failing_ledger_env example_config example_response
      example_host_request example_world))) = Some 500"
    by auto
  from t [where e = example_env and conf = ?soon and r = example_host_request
        and s = example_world and pk = example_key and serial = 1
        and err = "Err ''time: invalid duration''" and ?s1.0 = "?s1 HostCert ''host.example.com''"
        and ?s2.0 = "?s1 HostCert ''host.example.com''",
        THEN conjunct2, THEN conjunct2, THEN conjunct2, THEN conjunct1]
    hauth hname hmatch hkey rec_ok sign_soon
  have D: "status (fst (the (Enroll example_env ?soon example_response
      example_host_request example_world))) = Some 500"
    by auto
  have r: "rand_Read ?rand 32 = Inl (Err ''unexpected EOF'')" by simp
  from t [where e = ?rand and conf = example_config and keyId = "''alice''"
        and ps = "[''alice'']" and serial = 1 and t = UserCert and pk = example_key
        and s = example_world and err = "Err ''unexpected EOF''",
        THEN conjunct2, THEN conjunct2, THEN conjunct2, THEN conjunct2] r
  have E: "fst (sign ?rand example_config ''alice'' [''alice''] 1 UserCert example_key
             example_world) = Inl (Err ''unexpected EOF'')"
    by blast
  from A B C D E show ?thesis by blast
qed

subsection \<open>A body that is not a public key\<close>

text \<open>
  Claim C9 against the code. A host enrollment that passes the two transport checks and
  whose body does not parse as a public key is answered by \<^verbatim>\<open>Enroll\<close> with status 500 and
  the text of the parse error, with nothing written to the ledger; \<^verbatim>\<open>EnrollUser\<close> answers
  the same failure with status 400.
\<close>

theorem host_unparseable_key:
  assumes "status w = None"
    and "clientAuthenticated r = Some True"
    and "clientHostnameMatches e (case Vars r ''hostname'' of None \<Rightarrow> [] | Some h \<Rightarrow> h) r
           = Some True"
    and "readPubkey e r = Inl err"
  shows "Enroll e conf w r s =
           Some (\<lparr>status = Some 500, written = written w @ Error err @ [CHR 0x0A]\<rparr>,
                 s\<lparr>log := log s @ [LogError ''internal error'']\<rparr>) \<and>
         (proxyAuthenticated e (AuthenticatingProxy conf) w r s = Some (user, True, w, s) \<longrightarrow>
            EnrollUser e conf w r s =
              Some (\<lparr>status = Some 400, written = written w @ Error err @ [CHR 0x0A]\<rparr>,
                    s\<lparr>log := log s @ [LogHttpError (Method r) (URL r) 400 err]\<rparr>))"
  using assms
  by (simp add: Enroll_def EnrollHost_def EnrollUser_def http_Error_fresh logHttpError_fresh)

text \<open>The theorem at the example requests with the body \<^verbatim>\<open>not a key\<close>.\<close>

theorem host_unparseable_key_witness:
  "readPubkey example_env (example_host_request\<lparr>Body := Inr ''not a key''\<rparr>)
     = Inl (Err ''ssh: no key found'') \<and>
   Enroll example_env example_config example_response
     (example_host_request\<lparr>Body := Inr ''not a key''\<rparr>) example_world =
     Some (\<lparr>status = Some 500, written = ''ssh: no key found'' @ [CHR 0x0A]\<rparr>,
           example_world\<lparr>log := [LogError ''internal error'']\<rparr>) \<and>
   EnrollUser example_env example_config example_response
     (example_user_request\<lparr>Body := Inr ''not a key''\<rparr>) example_world =
     Some (\<lparr>status = Some 400, written = ''ssh: no key found'' @ [CHR 0x0A]\<rparr>,
           example_world\<lparr>log := [LogHttpError ''POST'' ''/enroll_user'' 400
                                     (Err ''ssh: no key found'')]\<rparr>)"
proof -
  let ?hr = "example_host_request\<lparr>Body := Inr ''not a key''\<rparr>"
  let ?ur = "example_user_request\<lparr>Body := Inr ''not a key''\<rparr>"
  have w: "status example_response = None" "written example_response = []"
    by (simp_all add: example_response_def)
  have l: "log example_world = []" by (simp add: example_world_def)
  have ha: "clientAuthenticated ?hr = Some True"
    by (simp add: clientAuthenticated_def example_host_request_def)
  have hm: "clientHostnameMatches example_env
              (case Vars ?hr ''hostname'' of None \<Rightarrow> [] | Some h \<Rightarrow> h) ?hr = Some True"
    by (simp add: clientHostnameMatches_def example_host_request_def example_env_def)
  have hk: "readPubkey example_env ?hr = Inl (Err ''ssh: no key found'')"
    by (simp add: readPubkey_def example_env_def)
  have ua: "clientAuthenticated ?ur = Some True"
    by (simp add: clientAuthenticated_def example_user_request_def)
  have um: "clientHostnameMatches example_env
              (case Vars ?ur ''hostname'' of None \<Rightarrow> [] | Some h \<Rightarrow> h) ?ur = Some False"
    by (simp add: clientHostnameMatches_def example_user_request_def example_env_def)
  have uk: "readPubkey example_env ?ur = Inl (Err ''ssh: no key found'')"
    by (simp add: readPubkey_def example_env_def)
  have up: "proxyAuthenticated example_env (AuthenticatingProxy example_config) example_response
              ?ur example_world = Some (''alice'', True, example_response, example_world)"
    by (simp add: proxyAuthenticated_def clientAuthenticated_def clientHostnameMatches_def
        Header_Get_def example_env_def example_config_def example_user_request_def)
  have mu: "Method ?ur = ''POST''" "URL ?ur = ''/enroll_user''"
    by (simp_all add: example_user_request_def)
  from host_unparseable_key [OF w(1) ha hm hk, of example_config example_world, THEN conjunct1]
  have A: "Enroll example_env example_config example_response ?hr example_world =
     Some (\<lparr>status = Some 500, written = ''ssh: no key found'' @ [CHR 0x0A]\<rparr>,
           example_world\<lparr>log := [LogError ''internal error'']\<rparr>)"
    by (simp add: w l)
  have B: "EnrollUser example_env example_config example_response ?ur example_world =
     Some (\<lparr>status = Some 400, written = ''ssh: no key found'' @ [CHR 0x0A]\<rparr>,
           example_world\<lparr>log := [LogHttpError ''POST'' ''/enroll_user'' 400
                                     (Err ''ssh: no key found'')]\<rparr>)"
    using up uk w l mu by (simp add: EnrollUser_def logHttpError_fresh)
  from hk A B show ?thesis by simp
qed

subsection \<open>The certificate that the host name is matched against\<close>

text \<open>
  Claim C10. With an empty list of verified chains \<^verbatim>\<open>clientHostnameMatches\<close> returns false,
  whatever the environment says about any certificate. With a first chain that has a
  leaf, its result is whether that leaf validates for the host name; no other certificate
  of the request enters. It returns a value for every request with a connection state
  whose chains each hold a certificate. A host enrollment answered with status 403 had a
  chain whose leaf did not validate.
\<close>

theorem hostname_match_first_leaf:
  "(TLS r = Some conn \<and> VerifiedChains conn = [] \<longrightarrow>
      clientHostnameMatches e hostname r = Some False) \<and>
   (TLS r = Some conn \<and> VerifiedChains conn = (leaf # rest) # others \<longrightarrow>
      clientHostnameMatches e hostname r = Some (VerifyHostname e leaf hostname = None)) \<and>
   (TLS r = Some conn \<and> [] \<notin> set (VerifiedChains conn) \<longrightarrow>
      clientHostnameMatches e hostname r \<noteq> None) \<and>
   (status w = None \<and> Enroll e conf w r s = Some (w', s') \<and> status w' = Some 403 \<longrightarrow>
      (\<exists>c l ls cs. TLS r = Some c \<and> VerifiedChains c = (l # ls) # cs \<and>
         VerifyHostname e l (case Vars r ''hostname'' of None \<Rightarrow> [] | Some h \<Rightarrow> h) \<noteq> None))"
proof (intro conjI impI)
  assume "TLS r = Some conn \<and> VerifiedChains conn = []"
  then show "clientHostnameMatches e hostname r = Some False"
    by (simp add: clientHostnameMatches_empty)
next
  assume "TLS r = Some conn \<and> VerifiedChains conn = (leaf # rest) # others"
  then show "clientHostnameMatches e hostname r = Some (VerifyHostname e leaf hostname = None)"
    by (simp add: clientHostnameMatches_leaf)
next
  assume a: "TLS r = Some conn \<and> [] \<notin> set (VerifiedChains conn)"
  show "clientHostnameMatches e hostname r \<noteq> None"
  proof (cases "VerifiedChains conn")
    case Nil
    with a show ?thesis by (simp add: clientHostnameMatches_empty)
  next
    case (Cons chain others')
    with a obtain l ls where "chain = l # ls" by (cases chain) auto
    with a Cons show ?thesis by (simp add: clientHostnameMatches_leaf)
  qed
next
  let ?h = "case Vars r ''hostname'' of None \<Rightarrow> [] | Some h \<Rightarrow> h"
  assume "status w = None \<and> Enroll e conf w r s = Some (w', s') \<and> status w' = Some 403"
  then have a: "status w = None" "Enroll e conf w r s = Some (w', s')" "status w' = Some 403"
    by simp_all
  then obtain c where c: "TLS r = Some c"
    by (auto simp: Enroll_def clientAuthenticated_def split: option.splits)
  show "\<exists>c l ls cs. TLS r = Some c \<and> VerifiedChains c = (l # ls) # cs \<and>
         VerifyHostname e l ?h \<noteq> None"
  proof (cases "VerifiedChains c")
    case Nil
    with a c show ?thesis
      by (auto simp: Enroll_def clientAuthenticated_eq http_Error_fresh)
  next
    case (Cons chain cs)
    show ?thesis
    proof (cases chain)
      case Nil
      with a c \<open>VerifiedChains c = chain # cs\<close> show ?thesis
        by (simp add: Enroll_def clientAuthenticated_eq clientHostnameMatches_def)
    next
      case (Cons l ls)
      with a c \<open>VerifiedChains c = chain # cs\<close> show ?thesis
        by (auto simp: Enroll_def Let_def clientAuthenticated_eq clientHostnameMatches_leaf
              http_Error_fresh Write_fresh split: if_splits prod.splits sum.splits)
    qed
  qed
qed

text \<open>
  The theorem at the example host request, at that request without a chain and at that
  request for another host name.
\<close>

theorem hostname_match_first_leaf_witness:
  "clientHostnameMatches example_env ''host.example.com''
     (example_host_request\<lparr>TLS := Some \<lparr>VerifiedChains = []\<rparr>\<rparr>) = Some False \<and>
   clientHostnameMatches example_env ''host.example.com'' example_host_request = Some True \<and>
   clientHostnameMatches example_env ''other.example.com'' example_host_request \<noteq> None \<and>
   (\<exists>c l ls cs.
      TLS (example_host_request\<lparr>Vars := [''hostname'' \<mapsto> ''other.example.com'']\<rparr>) = Some c \<and>
      VerifiedChains c = (l # ls) # cs \<and>
      VerifyHostname example_env l ''other.example.com'' \<noteq> None)"
proof -
  let ?r0 = "example_host_request\<lparr>TLS := Some \<lparr>VerifiedChains = []\<rparr>\<rparr>"
  let ?r3 = "example_host_request\<lparr>Vars := [''hostname'' \<mapsto> ''other.example.com'']\<rparr>"
  let ?conn = "\<lparr>VerifiedChains = [ [X509 ''host.example.com''] ]\<rparr>"
  have t0: "TLS ?r0 = Some \<lparr>VerifiedChains = []\<rparr> \<and> VerifiedChains \<lparr>VerifiedChains = []\<rparr> = []"
    by simp
  have t1: "TLS example_host_request = Some ?conn \<and>
            VerifiedChains ?conn = (X509 ''host.example.com'' # []) # []"
    by (simp add: example_host_request_def)
  have t2: "TLS example_host_request = Some ?conn \<and> [] \<notin> set (VerifiedChains ?conn)"
    by (simp add: example_host_request_def)
  have w: "status example_response = None" by (simp add: example_response_def)
  have run: "Enroll example_env example_config example_response ?r3 example_world =
          Some (\<lparr>status = Some 403,
                  written = ''hostname does not match certificate'' @ [CHR 0x0A]\<rparr>, example_world)"
    by (simp add: Enroll_def clientAuthenticated_def clientHostnameMatches_def http_Error_fresh
          example_host_request_def example_response_def example_env_def)
  have v: "VerifyHostname example_env (X509 ''host.example.com'') ''host.example.com'' = None"
    by (simp add: example_env_def)
  have h: "(case Vars ?r3 ''hostname'' of None \<Rightarrow> [] | Some h \<Rightarrow> h) = ''other.example.com''"
    by simp
  note thm0 = hostname_match_first_leaf [where r = ?r0 and conn = "\<lparr>VerifiedChains = []\<rparr>"
      and e = example_env and hostname = "''host.example.com''", THEN conjunct1]
  note thm1 = hostname_match_first_leaf [where r = example_host_request and conn = ?conn
      and leaf = "X509 ''host.example.com''" and rest = "[]" and others = "[]"
      and e = example_env and hostname = "''host.example.com''", THEN conjunct2, THEN conjunct1]
  note thm2 = hostname_match_first_leaf [where r = example_host_request and conn = ?conn
      and e = example_env and hostname = "''other.example.com''",
      THEN conjunct2, THEN conjunct2, THEN conjunct1]
  note thm3 = hostname_match_first_leaf [where r = ?r3 and w = example_response
      and e = example_env and conf = example_config and s = example_world
      and w' = "\<lparr>status = Some 403,
                  written = ''hostname does not match certificate'' @ [CHR 0x0A]\<rparr>"
      and s' = example_world,
      THEN conjunct2, THEN conjunct2, THEN conjunct2]
  from thm0 t0 have a: "clientHostnameMatches example_env ''host.example.com'' ?r0 = Some False"
    by blast
  from thm1 t1 v have b: "clientHostnameMatches example_env ''host.example.com'' example_host_request = Some True"
    by simp
  from thm2 t2 have c: "clientHostnameMatches example_env ''other.example.com'' example_host_request \<noteq> None"
    by blast
  from thm3 w run have d: "\<exists>c l ls cs.
      TLS ?r3 = Some c \<and> VerifiedChains c = (l # ls) # cs \<and>
      VerifyHostname example_env l (case Vars ?r3 ''hostname'' of None \<Rightarrow> [] | Some h \<Rightarrow> h) \<noteq> None"
    by simp
  from a b c d h show ?thesis by simp
qed

end
